theory Spec2Isabelle
  imports Complex_Main "HOL-Library.Multiset" "HOL-Library.Word"
begin

text \<open>
  A model of the portfolio city: the update scheduler, the window batch, the residential
  placement, the tree sampler, the player controller, highlighting, disposal and the
  geometry and material caches of \<open>Portfolio.js\<close>, \<open>Building.js\<close> and
  \<open>Character.js\<close>. The first part translates the code, the second part states and
  proves its properties.
\<close>

section \<open>Numbers, vectors and the random source\<close>

text \<open>
  JavaScript numbers are modelled as reals: rounding of IEEE doubles is not part of the
  model. \<open>Math.random()\<close> is a stream of numbers: the \<open>k\<close>-th call of a run
  returns \<open>rnd k\<close>, and every function that draws random numbers threads the number
  of calls made so far. The host guarantees \<open>0 \<le> rnd k < 1\<close>; where a property
  needs that, it is a hypothesis.
\<close>

type_synonym random_source = "nat \<Rightarrow> real"

definition unit_interval :: "random_source \<Rightarrow> bool" where
  "unit_interval rnd = (\<forall>k. 0 \<le> rnd k \<and> rnd k < 1)"

record vec3 =
  vx :: real
  vy :: real
  vz :: real

definition distanceToSquared :: "vec3 \<Rightarrow> vec3 \<Rightarrow> real" where
  "distanceToSquared a b =
     (vx a - vx b) * (vx a - vx b) + (vy a - vy b) * (vy a - vy b)
       + (vz a - vz b) * (vz a - vz b)"

definition distanceTo :: "vec3 \<Rightarrow> vec3 \<Rightarrow> real" where
  "distanceTo a b = sqrt (distanceToSquared a b)"

section \<open>Building.addWindows: the instanced window batch\<close>

text \<open>
  \<open>addWindows\<close> reserves \<open>totalWindows\<close> instances and then writes one matrix per
  window with \<open>setMatrixAt(instanceIndex++, matrix)\<close>. The model keeps the number of
  random draws, the running \<open>instanceIndex\<close> and the indices handed to
  \<open>setMatrixAt\<close>, in order.
\<close>

record window_batch =
  draws :: nat
  instanceIndex :: nat
  written :: "nat list"

text \<open>The body of both inner loops: skip the cell when the draw exceeds 0.8, else
  write two instances (front and back, or right and left).\<close>

definition placePair :: "random_source \<Rightarrow> window_batch \<Rightarrow> window_batch" where
  "placePair rnd s =
     (if rnd (draws s) > 8 / 10 then s\<lparr>draws := draws s + 1\<rparr>
      else s\<lparr>draws := draws s + 1,
             instanceIndex := instanceIndex s + 2,
             written := written s @ [instanceIndex s, instanceIndex s + 1]\<rparr>)"

text \<open>\<open>for (i = 0; i < columns; i++) for (j = 0; j < rows; j++) ...\<close>; a count that
  is not positive gives no iteration.\<close>

definition windowLoop :: "random_source \<Rightarrow> int \<Rightarrow> int \<Rightarrow> window_batch \<Rightarrow> window_batch" where
  "windowLoop rnd columns rows s =
     fold (\<lambda>i. fold (\<lambda>j. placePair rnd) [0..<nat rows]) [0..<nat columns] s"

definition addWindows :: "random_source \<Rightarrow> real \<Rightarrow> real \<Rightarrow> real \<Rightarrow> int \<times> window_batch" where
  "addWindows rnd width height depth =
     (let windowsHorizontal = \<lfloor>width * 2\<rfloor>;
          windowsVertical = \<lfloor>height * (3 / 2)\<rfloor>;
          totalWindows = windowsHorizontal * windowsVertical * 4;
          front = windowLoop rnd windowsHorizontal windowsVertical
                    \<lparr>draws = 0, instanceIndex = 0, written = []\<rparr>;
          sides = (if width > 3 / 2
                   then windowLoop rnd \<lfloor>depth * 2\<rfloor> windowsVertical front
                   else front)
      in (totalWindows, sides))"

section \<open>Portfolio.animate: which buildings are updated in a frame\<close>

text \<open>
  The scheduler reads of a building only its identity, whether it has a mesh, the mesh's
  position and the mesh's geometry. \<open>isInViewFrustum\<close> looks at the geometry's
  bounding sphere before it asks the frustum; \<open>Frustum.intersectsObject\<close> belongs to
  the rendering library and is a parameter.
\<close>

datatype compute_outcome = ComputeThrows | ComputeSetsSphere | ComputeLeavesNull

datatype bounding_sphere = HasSphere | NoSphere compute_outcome

record object3d =
  position :: vec3
  geometry :: "bounding_sphere option"

record building =
  bid :: nat
  mesh :: "object3d option"

type_synonym frustum = "object3d \<Rightarrow> bool"

definition isInViewFrustum :: "frustum \<Rightarrow> object3d \<Rightarrow> bool" where
  "isInViewFrustum intersectsObject obj =
     (case geometry obj of
        None \<Rightarrow> False
      | Some HasSphere \<Rightarrow> intersectsObject obj
      | Some (NoSphere ComputeThrows) \<Rightarrow> True
      | Some (NoSphere ComputeLeavesNull) \<Rightarrow> True
      | Some (NoSphere ComputeSetsSphere) \<Rightarrow> intersectsObject obj)"

text \<open>The callback of \<open>this.buildings.forEach\<close> in \<open>animate\<close>: the identities of
  the buildings whose \<open>update\<close> it calls (none or one). The distance test comes first
  and returns before the always-active set is consulted. Every entry of the list is a
  \<open>Building\<close>, which has an \<open>update\<close> method; an exception thrown inside
  \<open>update\<close> is caught by the callback, after the call was made.\<close>

definition updateIfActive :: "vec3 \<Rightarrow> frustum \<Rightarrow> nat set \<Rightarrow> building \<Rightarrow> nat list" where
  "updateIfActive camera fr visibleBuildings b =
     (case mesh b of
        None \<Rightarrow> []
      | Some m \<Rightarrow>
          if distanceTo (position m) camera > 150 then []
          else if bid b \<in> visibleBuildings \<or> isInViewFrustum fr m then [bid b]
          else [])"

definition animate :: "vec3 \<Rightarrow> frustum \<Rightarrow> nat set \<Rightarrow> building list \<Rightarrow> nat list" where
  "animate camera fr visibleBuildings buildings =
     concat (map (updateIfActive camera fr visibleBuildings) buildings)"

text \<open>The \<open>animate\<close> of the first \<open>Portfolio.js\<close> has no test at all:
  \<open>this.buildings.forEach(building => { building.update && building.update(time, this.camera); })\<close>
  calls \<open>update\<close> on every building of the list.\<close>

definition animateAll :: "building list \<Rightarrow> nat list" where
  "animateAll buildings = map bid buildings"

text \<open>Two scenes used below: the viewer at the origin, a landmark next to it and a
  landmark 200 units away.\<close>

definition origin :: vec3 where
  "origin = \<lparr>vx = 0, vy = 0, vz = 0\<rparr>"

definition nearLandmark :: building where
  "nearLandmark =
     \<lparr>bid = 0, mesh = Some \<lparr>position = \<lparr>vx = 0, vy = 8, vz = 0\<rparr>, geometry = None\<rparr>\<rparr>"

definition farLandmark :: building where
  "farLandmark =
     \<lparr>bid = 1, mesh = Some \<lparr>position = \<lparr>vx = 200, vy = 8, vz = 0\<rparr>, geometry = None\<rparr>\<rparr>"

section \<open>Portfolio.addResidentialDistrict: grid, exclusion filter and selection\<close>

datatype js_error = TypeError | UnknownType string

type_synonym point = "real \<times> real"

text \<open>The condition under which a grid candidate is dropped: a union of eight
  axis-aligned open rectangles, in the order of the source.\<close>

definition excluded :: "real \<Rightarrow> real \<Rightarrow> bool" where
  "excluded posX posZ =
     ((\<bar>posX\<bar> < 10 \<and> \<bar>posZ\<bar> < 20) \<or>
      (\<bar>posZ\<bar> < 10 \<and> \<bar>posX\<bar> < 20) \<or>
      (\<bar>posX\<bar> < 12 \<and> \<bar>posZ\<bar> < 12) \<or>
      (\<bar>posX - 16\<bar> < 8 \<and> \<bar>posZ - 16\<bar> < 8) \<or>
      (\<bar>posX + 16\<bar> < 8 \<and> \<bar>posZ - 16\<bar> < 8) \<or>
      (\<bar>posX - 16\<bar> < 8 \<and> \<bar>posZ + 16\<bar> < 8) \<or>
      (\<bar>posX + 16\<bar> < 8 \<and> \<bar>posZ + 16\<bar> < 8) \<or>
      (\<bar>posX\<bar> < 8 \<and> \<bar>posZ + 24\<bar> < 8))"

text \<open>The six landmark buildings of \<open>createCity\<close>, which are placed before the
  residential fill: centre \<open>(posX, posZ)\<close>, width and depth. A point is inside a
  footprint when it is within half the width and half the depth of the centre.\<close>

definition landmarks :: "(real \<times> real \<times> real \<times> real) list" where
  "landmarks =
     [(0, 0, 8, 8), (- 16, - 16, 6, 6), (16, - 16, 6, 6), (16, 16, 6, 6), (- 16, 16, 6, 6),
      (0, - 24, 6, 6)]"

fun insideFootprint :: "real \<Rightarrow> real \<Rightarrow> real \<times> real \<times> real \<times> real \<Rightarrow> bool" where
  "insideFootprint x z (posX, posZ, width, depth) =
     (\<bar>x - posX\<bar> \<le> width / 2 \<and> \<bar>z - posZ\<bar> \<le> depth / 2)"

definition gridSize :: real where
  "gridSize = 10"

definition gridCells :: int where
  "gridCells = 12"

text \<open>One cell of the grid: two draws for the jitter, then the filter. The state is the
  number of draws made and the \<open>positions\<close> array.\<close>

definition gridCell :: "random_source \<Rightarrow> int \<Rightarrow> int \<Rightarrow> nat \<times> point list \<Rightarrow> nat \<times> point list" where
  "gridCell rnd x z st =
     (let k = fst st; positions = snd st;
          posX = of_int x * gridSize + (rnd k - 1 / 2) * 5;
          posZ = of_int z * gridSize + (rnd (k + 1) - 1 / 2) * 5
      in if excluded posX posZ then (k + 2, positions)
         else (k + 2, positions @ [(posX, posZ)]))"

definition gridPositions :: "random_source \<Rightarrow> nat \<times> point list" where
  "gridPositions rnd =
     fold (\<lambda>x. fold (\<lambda>z. gridCell rnd x z) [- (gridCells div 2)..gridCells div 2 - 1])
       [- (gridCells div 2)..gridCells div 2 - 1] (0, [])"

text \<open>\<open>positions[index]\<close> is \<open>undefined\<close> (\<open>None\<close>) out of range, and
  \<open>positions.splice(index, 1)\<close> counts a negative index from the end and removes
  nothing at or beyond the length.\<close>

definition element_at :: "'a list \<Rightarrow> int \<Rightarrow> 'a option" where
  "element_at xs i = (if 0 \<le> i \<and> i < int (length xs) then Some (xs ! nat i) else None)"

definition splice1 :: "'a list \<Rightarrow> int \<Rightarrow> 'a list" where
  "splice1 xs i =
     (let n = int (length xs);
          start = (if i < 0 then max (n + i) 0 else min i n)
      in take (nat start) xs @ drop (nat start + 1) xs)"

text \<open>\<open>while (selectedPositions.length < buildingCount && positions.length > 0)\<close>: each
  round pushes one entry, so the loop ends after at most \<open>buildingCount\<close> rounds.\<close>

function selectLoop ::
  "random_source \<Rightarrow> nat \<Rightarrow> nat \<Rightarrow> point list \<Rightarrow> point option list \<Rightarrow> point option list" where
  "selectLoop rnd buildingCount k positions selectedPositions =
     (if length selectedPositions < buildingCount \<and> length positions > 0
      then let index = \<lfloor>rnd k * real (length positions)\<rfloor>
           in selectLoop rnd buildingCount (k + 1) (splice1 positions index)
                (selectedPositions @ [element_at positions index])
      else selectedPositions)"
  by pat_completeness auto
termination
  by (relation "measure (\<lambda>(rnd, buildingCount, k, positions, selectedPositions).
        buildingCount - length selectedPositions)") auto

declare selectLoop.simps [simp del]

text \<open>The selection stage on a given pool, and what \<open>selectedPositions.forEach\<close> then
  does first: it reads \<open>pos.x\<close>, which throws a TypeError on \<open>undefined\<close>.\<close>

definition placementsFrom :: "random_source \<Rightarrow> nat \<Rightarrow> nat \<Rightarrow> point list \<Rightarrow> js_error + point list" where
  "placementsFrom rnd buildingCount k positions =
     (let selectedPositions = selectLoop rnd buildingCount k positions []
      in if None \<in> set selectedPositions then Inl TypeError
         else Inr (map the selectedPositions))"

definition residentialPlacements :: "random_source \<Rightarrow> nat \<Rightarrow> js_error + point list" where
  "residentialPlacements rnd buildingCount =
     placementsFrom rnd buildingCount (fst (gridPositions rnd)) (snd (gridPositions rnd))"

section \<open>Portfolio.addTrees: anchors and rejection sampling\<close>

definition treePositions :: "point list" where
  "treePositions =
     [(10, 10), (-10, 10), (10, -10), (-10, -10),
      (20, 0), (-20, 0), (0, 20), (0, -20),
      (25, 25), (-25, 25), (25, -25), (-25, -25)]"

text \<open>The test of the \<open>while (!isValid)\<close> loop: a candidate is thrown away inside the
  central square and inside the bands along the two main roads.\<close>

definition rejected :: "real \<Rightarrow> real \<Rightarrow> bool" where
  "rejected x z = ((\<bar>x\<bar> < 10 \<and> \<bar>z\<bar> < 10) \<or> (\<bar>x\<bar> < 5 \<or> \<bar>z\<bar> < 5))"

text \<open>The loop has no bound on its rounds; a run that never leaves it has the value
  \<open>None\<close>. A result is the point and the number of draws made.\<close>

partial_function (option) samplePoint :: "random_source \<Rightarrow> nat \<Rightarrow> (point \<times> nat) option" where
  "samplePoint rnd k =
     (let x = (rnd k - 1 / 2) * 100;
          z = (rnd (k + 1) - 1 / 2) * 100
      in if \<bar>x\<bar> < 10 \<and> \<bar>z\<bar> < 10 then samplePoint rnd (k + 2)
         else if \<bar>x\<bar> < 5 \<or> \<bar>z\<bar> < 5 then samplePoint rnd (k + 2)
         else Some ((x, z), k + 2))"

text \<open>\<open>for (let i = treePositions.length; i < count; i++)\<close>, with the instances set
  so far; the parameter \<open>count\<close> is \<open>treeCount\<close> here. The first
  \<open>min(treePositions.length, count)\<close> instances are the anchors.\<close>

partial_function (option) randomTrees ::
  "random_source \<Rightarrow> nat \<Rightarrow> nat \<Rightarrow> nat \<Rightarrow> point list \<Rightarrow> point list option" where
  "randomTrees rnd i treeCount k placed =
     (if i < treeCount
      then case samplePoint rnd k of
             None \<Rightarrow> None
           | Some (p, k') \<Rightarrow> randomTrees rnd (i + 1) treeCount k' (placed @ [p])
      else Some placed)"

definition addTrees :: "random_source \<Rightarrow> nat \<Rightarrow> point list option" where
  "addTrees rnd treeCount =
     randomTrees rnd (length treePositions) treeCount 0
       (take (min (length treePositions) treeCount) treePositions)"

text \<open>The candidate tried at draw \<open>k\<close>: the two assignments at the head of the
  loop body.\<close>

definition candidate :: "random_source \<Rightarrow> nat \<Rightarrow> point" where
  "candidate rnd k = ((rnd k - 1 / 2) * 100, (rnd (k + 1) - 1 / 2) * 100)"

section \<open>Character.update and Character.handleCollisions\<close>

text \<open>
  The controller moves \<open>this.model || this.tempModel\<close>. Of the scene library it uses
  \<open>Box3.setFromObject\<close> (the world-space box of an object, the parameter
  \<open>bounds\<close>) and the matrix that turns a direction into the camera's horizontal frame
  (the parameter \<open>toCamera\<close>); the turning of the model by \<open>lookAt\<close>, the
  animation mixer and \<open>updateCamera\<close>, which writes to the camera only, are left out.
\<close>

record box3 =
  bmin :: vec3
  bmax :: vec3

definition intersectsBox :: "box3 \<Rightarrow> box3 \<Rightarrow> bool" where
  "intersectsBox this box =
     (vx (bmax box) \<ge> vx (bmin this) \<and> vx (bmin box) \<le> vx (bmax this) \<and>
      vy (bmax box) \<ge> vy (bmin this) \<and> vy (bmin box) \<le> vy (bmax this) \<and>
      vz (bmax box) \<ge> vz (bmin this) \<and> vz (bmin box) \<le> vz (bmax this))"

definition vlength :: "vec3 \<Rightarrow> real" where
  "vlength v = sqrt (vx v * vx v + vy v * vy v + vz v * vz v)"

definition subVectors :: "vec3 \<Rightarrow> vec3 \<Rightarrow> vec3" where
  "subVectors a b = \<lparr>vx = vx a - vx b, vy = vy a - vy b, vz = vz a - vz b\<rparr>"

text \<open>\<open>normalize\<close> divides by \<open>length() || 1\<close>.\<close>

definition normalize :: "vec3 \<Rightarrow> vec3" where
  "normalize v =
     (let l = (if vlength v = 0 then 1 else vlength v)
      in \<lparr>vx = vx v / l, vy = vy v / l, vz = vz v / l\<rparr>)"

record character =
  model :: "object3d option"
  tempModel :: "object3d option"
  shadow :: "vec3 option"
  moveForward :: bool
  moveBackward :: bool
  moveLeft :: bool
  moveRight :: bool
  isRunning :: bool

definition target :: "character \<Rightarrow> object3d option" where
  "target c = (case model c of Some m \<Rightarrow> Some m | None \<Rightarrow> tempModel c)"

text \<open>A write to the position of \<open>this.model || this.tempModel\<close>, with the shadow
  following it in \<open>x\<close> and \<open>z\<close> when there is one.\<close>

definition moveTarget :: "real \<Rightarrow> real \<Rightarrow> character \<Rightarrow> character" where
  "moveTarget dx dz c =
     (let shift = (\<lambda>obj. obj\<lparr>position := (position obj)\<lparr>vx := vx (position obj) + dx,
                                                       vz := vz (position obj) + dz\<rparr>\<rparr>);
          moved = (case model c of
                     Some m \<Rightarrow> c\<lparr>model := Some (shift m)\<rparr>
                   | None \<Rightarrow> c\<lparr>tempModel := map_option shift (tempModel c)\<rparr>)
      in case (shadow moved, target moved) of
           (Some sh, Some t) \<Rightarrow>
             moved\<lparr>shadow := Some (sh\<lparr>vx := vx (position t), vz := vz (position t)\<rparr>)\<rparr>
         | _ \<Rightarrow> moved)"

text \<open>One round of the \<open>for (const building of buildings)\<close> loop.\<close>

definition collide :: "(object3d \<Rightarrow> box3) \<Rightarrow> building \<Rightarrow> character \<Rightarrow> character" where
  "collide bounds b c =
     (case (mesh b, target c) of
        (Some m, Some t) \<Rightarrow>
          if intersectsBox (bounds t) (bounds m)
          then let pushDirection = normalize (subVectors (position t) (position m))
               in moveTarget (vx pushDirection * (1 / 10)) (vz pushDirection * (1 / 10)) c
          else c
      | _ \<Rightarrow> c)"

definition handleCollisions :: "(object3d \<Rightarrow> box3) \<Rightarrow> building list \<Rightarrow> character \<Rightarrow> character" where
  "handleCollisions bounds buildings c =
     (case target c of None \<Rightarrow> c | Some t \<Rightarrow> fold (collide bounds) buildings c)"

definition inputDirection :: "character \<Rightarrow> vec3" where
  "inputDirection c =
     \<lparr>vx = (if moveRight c then 1 else 0) - (if moveLeft c then 1 else 0),
      vy = 0,
      vz = (if moveBackward c then 1 else 0) - (if moveForward c then 1 else 0)\<rparr>"

definition update ::
  "(vec3 \<Rightarrow> vec3) \<Rightarrow> (object3d \<Rightarrow> box3) \<Rightarrow> real \<Rightarrow> building list \<Rightarrow> character \<Rightarrow> character" where
  "update toCamera bounds delta buildings c =
     (case target c of
        None \<Rightarrow> c
      | Some characterModel \<Rightarrow>
          let speed = (if isRunning c then 8 else 4);
              velocity = speed * delta;
              direction = inputDirection c;
              moved = (if vlength direction > 0
                       then let d = toCamera (normalize direction)
                            in moveTarget (vx d * velocity) (vz d * velocity) c
                       else c)
          in handleCollisions bounds buildings moved)"

text \<open>A player standing still beside one building: the placeholder capsule at the
  origin, the building's box ten units away.\<close>

definition capsule :: object3d where
  "capsule = \<lparr>position = \<lparr>vx = 0, vy = 1, vz = 0\<rparr>, geometry = Some HasSphere\<rparr>"

definition idlePlayer :: character where
  "idlePlayer =
     \<lparr>model = None, tempModel = Some capsule, shadow = Some \<lparr>vx = 0, vy = 1 / 100, vz = 0\<rparr>,
      moveForward = False, moveBackward = False, moveLeft = False, moveRight = False,
      isRunning = False\<rparr>"

definition tower :: building where
  "tower = \<lparr>bid = 7, mesh = Some \<lparr>position = \<lparr>vx = 10, vy = 4, vz = 0\<rparr>, geometry = None\<rparr>\<rparr>"

text \<open>Boxes for the example: every object is a box of half-width 1 in \<open>x\<close> and
  \<open>z\<close> that reaches from the ground to twice the height of its centre.\<close>

definition unitBounds :: "object3d \<Rightarrow> box3" where
  "unitBounds obj =
     \<lparr>bmin = \<lparr>vx = vx (position obj) - 1, vy = 0, vz = vz (position obj) - 1\<rparr>,
      bmax = \<lparr>vx = vx (position obj) + 1, vy = 2 * vy (position obj),
              vz = vz (position obj) + 1\<rparr>\<rparr>"

section \<open>Building.highlight and Building.unhighlight\<close>

text \<open>
  Materials are shared between parts through the material cache, so they live in a store
  indexed by reference and a part holds a reference. A colour is its hexadecimal number.
  The marker \<open>userData.originalColor\<close> belongs to the part; it is tested for
  truthiness, so an absent marker and the number 0 count the same.
\<close>

record material =
  color :: nat
  emissive :: nat
  emissiveIntensity :: real

type_synonym materials = "nat \<Rightarrow> material"

text \<open>What a node of the mesh subtree is: a group, a mesh (whose material may be
  missing) or an instanced mesh, which is a mesh too and always has its material.\<close>

datatype visual = Group | Mesh "nat option" | InstancedMesh nat

datatype part = Part (isLogo: bool) (visual: visual) (originalColor: "nat option")
  (children: "part list")

definition truthy :: "nat option \<Rightarrow> bool" where
  "truthy marker = (case marker of None \<Rightarrow> False | Some c \<Rightarrow> c \<noteq> 0)"

definition glow :: "nat \<Rightarrow> real \<Rightarrow> nat \<Rightarrow> materials \<Rightarrow> materials" where
  "glow hex intensity m st = st(m := (st m)\<lparr>emissive := hex, emissiveIntensity := intensity\<rparr>)"

text \<open>The callbacks handed to \<open>this.mesh.traverse\<close>: from a part's logo flag, kind and
  marker and the store to the part's new marker and the new store.\<close>

definition highlightPart :: "bool \<Rightarrow> visual \<Rightarrow> nat option \<Rightarrow> materials \<Rightarrow> nat option \<times> materials" where
  "highlightPart logo v marker st =
     (if logo then (marker, st)
      else case v of
             Group \<Rightarrow> (marker, st)
           | InstancedMesh m \<Rightarrow> (marker, glow 0xffffff (2 / 10) m st)
           | Mesh None \<Rightarrow> (marker, st)
           | Mesh (Some m) \<Rightarrow>
               if \<not> truthy marker then (Some (color (st m)), glow 0xffffff (2 / 10) m st)
               else (marker, st))"

definition unhighlightPart :: "bool \<Rightarrow> visual \<Rightarrow> nat option \<Rightarrow> materials \<Rightarrow> nat option \<times> materials" where
  "unhighlightPart logo v marker st =
     (if logo then (marker, st)
      else case v of
             Group \<Rightarrow> (marker, st)
           | InstancedMesh m \<Rightarrow> (marker, glow 0x000000 0 m st)
           | Mesh None \<Rightarrow> (marker, st)
           | Mesh (Some m) \<Rightarrow>
               if truthy marker then (None, glow 0x000000 0 m st)
               else (marker, st))"

text \<open>\<open>Object3D.traverse\<close>: the callback on the node, then on each child's subtree in
  order. Both methods run it from the building's root group \<open>this.mesh\<close>.\<close>

fun traverse ::
    "(bool \<Rightarrow> visual \<Rightarrow> nat option \<Rightarrow> materials \<Rightarrow> nat option \<times> materials) \<Rightarrow>
     part \<Rightarrow> materials \<Rightarrow> part \<times> materials"
  and traverseAll ::
    "(bool \<Rightarrow> visual \<Rightarrow> nat option \<Rightarrow> materials \<Rightarrow> nat option \<times> materials) \<Rightarrow>
     part list \<Rightarrow> materials \<Rightarrow> part list \<times> materials" where
  "traverse f (Part logo v marker cs) st =
     (let r = f logo v marker st;
          rs = traverseAll f cs (snd r)
      in (Part logo v (fst r) (fst rs), snd rs))"
| "traverseAll f [] st = ([], st)"
| "traverseAll f (c # cs) st =
     (let r = traverse f c st;
          rs = traverseAll f cs (snd r)
      in (fst r # fst rs, snd rs))"

definition highlight :: "part \<Rightarrow> materials \<Rightarrow> part \<times> materials" where
  "highlight rootGroup st = traverse highlightPart rootGroup st"

definition unhighlight :: "part \<Rightarrow> materials \<Rightarrow> part \<times> materials" where
  "unhighlight rootGroup st = traverse unhighlightPart rootGroup st"

definition highlightThenUnhighlight :: "part \<Rightarrow> materials \<Rightarrow> part \<times> materials" where
  "highlightThenUnhighlight rootGroup st =
     (let h = highlight rootGroup st in unhighlight (fst h) (snd h))"

text \<open>The materials that a highlight is meant to reach: those of the instanced meshes,
  and those of the ordinary meshes, anywhere in the subtree, logos apart.\<close>

fun instancedMaterials :: "part \<Rightarrow> nat set" where
  "instancedMaterials (Part logo v marker cs) =
     (case v of InstancedMesh m \<Rightarrow> (if logo then {} else {m}) | _ \<Rightarrow> {})
       \<union> (\<Union>c \<in> set cs. instancedMaterials c)"

fun meshMaterials :: "part \<Rightarrow> nat set" where
  "meshMaterials (Part logo v marker cs) =
     (case v of Mesh (Some m) \<Rightarrow> (if logo then {} else {m}) | _ \<Rightarrow> {})
       \<union> (\<Union>c \<in> set cs. meshMaterials c)"

text \<open>
  The earlier \<open>Building.js\<close> has no instanced meshes and does not descend: its two
  methods run one callback over \<open>this.mesh.children\<close>, on every child that has a
  material. Its windows are ordinary meshes added to the body mesh, so they are not among
  these children.
\<close>

fun materialOf :: "visual \<Rightarrow> nat option" where
  "materialOf Group = None"
| "materialOf (Mesh m) = m"
| "materialOf (InstancedMesh m) = Some m"

definition highlightChild :: "bool \<Rightarrow> visual \<Rightarrow> nat option \<Rightarrow> materials \<Rightarrow> nat option \<times> materials" where
  "highlightChild logo v marker st =
     (if logo then (marker, st)
      else case materialOf v of
             None \<Rightarrow> (marker, st)
           | Some m \<Rightarrow>
               if \<not> truthy marker then (Some (color (st m)), glow 0xffffff (2 / 10) m st)
               else (marker, st))"

definition unhighlightChild :: "bool \<Rightarrow> visual \<Rightarrow> nat option \<Rightarrow> materials \<Rightarrow> nat option \<times> materials" where
  "unhighlightChild logo v marker st =
     (if logo then (marker, st)
      else case materialOf v of
             None \<Rightarrow> (marker, st)
           | Some m \<Rightarrow>
               if truthy marker then (None, glow 0x000000 0 m st)
               else (marker, st))"

fun forEachChild ::
    "(bool \<Rightarrow> visual \<Rightarrow> nat option \<Rightarrow> materials \<Rightarrow> nat option \<times> materials) \<Rightarrow>
     part list \<Rightarrow> materials \<Rightarrow> part list \<times> materials" where
  "forEachChild f [] st = ([], st)"
| "forEachChild f (Part logo v marker cs # rest) st =
     (let r = f logo v marker st;
          rs = forEachChild f rest (snd r)
      in (Part logo v (fst r) cs # fst rs, snd rs))"

definition highlightThenUnhighlightChildren :: "part \<Rightarrow> materials \<Rightarrow> part list \<times> materials" where
  "highlightThenUnhighlightChildren rootGroup st =
     (let h = forEachChild highlightChild (children rootGroup) st
      in forEachChild unhighlightChild (fst h) (snd h))"

definition childMaterials :: "part list \<Rightarrow> nat set" where
  "childMaterials cs = {m. \<exists>c \<in> set cs. \<not> isLogo c \<and> materialOf (visual c) = Some m}"

definition markedMaterials :: "part list \<Rightarrow> nat set" where
  "markedMaterials cs =
     {m. \<exists>c \<in> set cs. \<not> isLogo c \<and> materialOf (visual c) = Some m \<and> truthy (originalColor c)}"

text \<open>The materials that \<open>unhighlight\<close> resets when it runs over a subtree: those of
  the instanced meshes and those of the ordinary meshes that carry a truthy marker.\<close>

fun resetMaterials :: "part \<Rightarrow> nat set" where
  "resetMaterials (Part logo v marker cs) =
     (case v of
        InstancedMesh m \<Rightarrow> (if logo then {} else {m})
      | Mesh (Some m) \<Rightarrow> (if \<not> logo \<and> truthy marker then {m} else {})
      | _ \<Rightarrow> {})
       \<union> (\<Union>c \<in> set cs. resetMaterials c)"

definition dark :: "materials \<Rightarrow> nat \<Rightarrow> bool" where
  "dark st m = (emissive (st m) = 0 \<and> emissiveIntensity (st m) = 0)"

text \<open>A standard building as \<open>createStandardBuilding\<close> of the later \<open>Building.js\<close>
  assembles it, reduced to the body and its window batch, and the main building of
  either version, reduced to its core and the glowing ring, both direct children of the
  root group. Material 0 is the body's (emissive black, intensity 1, the defaults of the
  library), material 1 the windows' (emissive \<open>0xc8e6f5\<close>, intensity 0.2), material 2
  the ring's (emissive \<open>0x7ea8c4\<close>, intensity 0.5).\<close>

definition standardBuilding :: part where
  "standardBuilding =
     Part False Group None [Part False (Mesh (Some 0)) None [Part False (InstancedMesh 1) None []]]"

definition mainBuilding :: part where
  "mainBuilding =
     Part False Group None [Part False (Mesh (Some 0)) None [], Part False (Mesh (Some 2)) None []]"

definition standardMaterials :: materials where
  "standardMaterials =
     (\<lambda>_. \<lparr>color = 0xf5b971, emissive = 0, emissiveIntensity = 1\<rparr>)
       (1 := \<lparr>color = 0xc8e6f5, emissive = 0xc8e6f5, emissiveIntensity = 2 / 10\<rparr>,
        2 := \<lparr>color = 0x7ea8c4, emissive = 0x7ea8c4, emissiveIntensity = 1 / 2\<rparr>)"

section \<open>The geometry and material caches\<close>

text \<open>
  The cache keys are made by two built-ins, \<open>Array.prototype.join\<close> and
  \<open>JSON.stringify\<close>, so a JavaScript value is modelled with what the two make of it.
  \<open>undefined\<close>, \<open>null\<close>, booleans and strings (of characters with codes below
  256) are themselves. \<open>JNum\<close> is a number that is an integer from \<open>-2^53\<close> to
  \<open>2^53 - 1\<close>; both built-ins print such a number in decimal. \<open>JTexture\<close> is a texture object: its identity and the JSON text that its
  \<open>toJSON\<close> method gives. \<open>JOther\<close> is any other value (a number with a fraction or
  beyond \<open>2^53\<close>, which the built-ins print in the shortest form that reads back, with
  an exponent from \<open>1e21\<close> on; an array; another object): it carries the string
  that \<open>join\<close> makes of it, and the text that \<open>JSON.stringify\<close> makes of it as a
  property value, or nothing where \<open>JSON.stringify\<close> leaves the property out (a
  function). Values whose conversion throws (a symbol in \<open>join\<close>, a BigInt or a cyclic
  object in \<open>JSON.stringify\<close>) are not in the model.

  A parameter object is the list of its properties in insertion order; no name occurs
  twice, and the names are not array indices, which JavaScript would enumerate first.
\<close>

type_synonym resource = nat

datatype jsval =
    JUndefined
  | JNull
  | JBool bool
  | JNum "54 word"
  | JStr string
  | JTexture resource string
  | JOther string "string option"

definition digit :: "nat \<Rightarrow> char" where
  "digit d = ''0123456789abcdef'' ! d"

fun digits :: "nat \<Rightarrow> string" where
  "digits n = (if n < 10 then [digit n] else digits (n div 10) @ [digit (n mod 10)])"

declare digits.simps [simp del]

definition numberToString :: "54 word \<Rightarrow> string" where
  "numberToString w =
     (if sint w < 0 then ''-'' @ digits (nat (- sint w)) else digits (nat (sint w)))"

text \<open>\<open>Array.prototype.join\<close> turns \<open>undefined\<close> and \<open>null\<close> into the empty
  string and every other element into its string.\<close>

fun joinElement :: "jsval \<Rightarrow> string" where
  "joinElement JUndefined = []"
| "joinElement JNull = []"
| "joinElement (JBool b) = (if b then ''true'' else ''false'')"
| "joinElement (JNum w) = numberToString w"
| "joinElement (JStr s) = s"
| "joinElement (JTexture r json) = ''[object Object]''"
| "joinElement (JOther s json) = s"

fun join :: "string \<Rightarrow> string list \<Rightarrow> string" where
  "join sep [] = []"
| "join sep [x] = x"
| "join sep (x # y # ys) = x @ sep @ join sep (y # ys)"

text \<open>\<open>JSON.stringify\<close> of a parameter object: a property whose value is
  \<open>undefined\<close> is left out, strings are quoted and escaped.\<close>

definition escapeChar :: "char \<Rightarrow> string" where
  "escapeChar c =
     (if c = CHR 0x22 then [CHR 0x5C, CHR 0x22]
      else if c = CHR 0x5C then [CHR 0x5C, CHR 0x5C]
      else if c = CHR 0x08 then [CHR 0x5C, CHR ''b'']
      else if c = CHR 0x09 then [CHR 0x5C, CHR ''t'']
      else if c = CHR 0x0A then [CHR 0x5C, CHR ''n'']
      else if c = CHR 0x0C then [CHR 0x5C, CHR ''f'']
      else if c = CHR 0x0D then [CHR 0x5C, CHR ''r'']
      else if of_char c < (32 :: nat)
        then [CHR 0x5C, CHR ''u'', CHR ''0'', CHR ''0'',
              digit (of_char c div 16), digit (of_char c mod 16)]
      else [c])"

definition quote :: "string \<Rightarrow> string" where
  "quote s = [CHR 0x22] @ concat (map escapeChar s) @ [CHR 0x22]"

fun stringifyValue :: "jsval \<Rightarrow> string option" where
  "stringifyValue JUndefined = None"
| "stringifyValue JNull = Some ''null''"
| "stringifyValue (JBool b) = Some (if b then ''true'' else ''false'')"
| "stringifyValue (JNum w) = Some (numberToString w)"
| "stringifyValue (JStr s) = Some (quote s)"
| "stringifyValue (JTexture r json) = Some json"
| "stringifyValue (JOther s json) = json"

definition stringifyProperty :: "string \<times> jsval \<Rightarrow> string list" where
  "stringifyProperty kv =
     (case stringifyValue (snd kv) of
        None \<Rightarrow> []
      | Some v \<Rightarrow> [quote (fst kv) @ '':'' @ v])"

definition stringify :: "(string \<times> jsval) list \<Rightarrow> string" where
  "stringify params = ''{'' @ join '','' (concat (map stringifyProperty params)) @ ''}''"

definition geometryKey :: "string \<Rightarrow> jsval list \<Rightarrow> string" where
  "geometryKey type params = type @ ''_'' @ join ''_'' (map joinElement params)"

definition materialKey :: "string \<Rightarrow> (string \<times> jsval) list \<Rightarrow> string" where
  "materialKey type params = type @ ''_'' @ stringify params"

text \<open>
  A handle is the object that \<open>new THREE.BoxGeometry(...)\<close> and its like create: it
  has an identity of its own (a GPU resource, numbered by a counter of the objects
  created) besides what it was made from. Two handles are the same object when their
  identities are equal. A material constructor copies the parameters into the material,
  so the material's \<open>map\<close> is the texture given under that name, if any.
\<close>

record cached_geometry =
  geometryResource :: resource
  geometryKind :: string
  geometryParams :: "jsval list"

record cached_material =
  materialResource :: resource
  materialKind :: string
  materialParams :: "(string \<times> jsval) list"
  mapResource :: "resource option"

definition textureOf :: "(string \<times> jsval) list \<Rightarrow> resource option" where
  "textureOf params =
     (case map_of params ''map'' of
        Some (JTexture r json) \<Rightarrow> Some r
      | _ \<Rightarrow> None)"


section \<open>Portfolio.dispose\<close>

text \<open>
  The state keeps the log of the \<open>dispose()\<close> calls made on resources, in order.
  \<open>dispose\<close> reads of a building its logo texture, whether it was given the shared
  caches, and the resources of its own meshes; of the character the resources of its
  model, placeholder and shadow; of a cached material its texture map. A field that the
  method sets to \<open>null\<close> is an option. A cache is the list of its entries in insertion
  order, which is the order of \<open>Object.values\<close>.
\<close>

record building_assets =
  logoMap :: "resource option"
  geometryCacheGiven :: bool
  materialCacheGiven :: bool
  meshResources :: "resource list"

record character_assets =
  modelResources :: "resource list option"
  tempModelResources :: "resource list option"
  shadowResources :: "resource list option"

record portfolio =
  clickListener :: bool
  buildings :: "building_assets list option"
  character :: "character_assets option"
  minimap :: "bool option"
  geometryCache :: "(string \<times> cached_geometry) list option"
  materialCache :: "(string \<times> cached_material) list option"
  renderer :: "resource option"
  sceneSet :: bool
  objectsCreated :: nat
  released :: "resource list"

text \<open>\<open>Building.dispose\<close>: the logo's texture, and the meshes' own resources only when
  neither cache was given.\<close>

definition Building_dispose :: "building_assets \<Rightarrow> resource list" where
  "Building_dispose b =
     (case logoMap b of None \<Rightarrow> [] | Some t \<Rightarrow> [t])
       @ (if \<not> geometryCacheGiven b \<and> \<not> materialCacheGiven b then meshResources b else [])"

definition Character_dispose :: "character_assets \<Rightarrow> resource list" where
  "Character_dispose c =
     (case modelResources c of None \<Rightarrow> [] | Some rs \<Rightarrow> rs)
       @ (case tempModelResources c of None \<Rightarrow> [] | Some rs \<Rightarrow> rs)
       @ (case shadowResources c of None \<Rightarrow> [] | Some rs \<Rightarrow> rs)"

definition Material_dispose :: "cached_material \<Rightarrow> resource list" where
  "Material_dispose m =
     (case mapResource m of None \<Rightarrow> [] | Some t \<Rightarrow> [t]) @ [materialResource m]"

text \<open>\<open>Portfolio.dispose\<close>, statement by statement. \<open>this.buildings.forEach\<close> and
  \<open>Object.values(cache)\<close> throw a TypeError on \<open>null\<close>; the result is the error, if
  any, and the state reached.\<close>

definition dispose :: "portfolio \<Rightarrow> js_error option \<times> portfolio" where
  "dispose p =
     (let p1 = p\<lparr>clickListener := False\<rparr>
      in case buildings p1 of
           None \<Rightarrow> (Some TypeError, p1)
         | Some bs \<Rightarrow>
             let p2 = p1\<lparr>released := released p1 @ concat (map Building_dispose bs)\<rparr>;
                 p3 = (case character p2 of
                         None \<Rightarrow> p2
                       | Some c \<Rightarrow> p2\<lparr>released := released p2 @ Character_dispose c,
                                       character := None\<rparr>);
                 p4 = p3\<lparr>minimap := None\<rparr>
             in case geometryCache p4 of
                  None \<Rightarrow> (Some TypeError, p4)
                | Some gc \<Rightarrow>
                    let p5 = p4\<lparr>released := released p4
                                   @ map (geometryResource \<circ> snd) gc\<rparr>
                    in case materialCache p5 of
                         None \<Rightarrow> (Some TypeError, p5)
                       | Some mc \<Rightarrow>
                           let p6 = p5\<lparr>released := released p5
                                          @ concat (map (Material_dispose \<circ> snd) mc)\<rparr>;
                               p7 = (case renderer p6 of
                                       None \<Rightarrow> p6
                                     | Some r \<Rightarrow> p6\<lparr>released := released p6 @ [r]\<rparr>)
                           in (None, p7\<lparr>sceneSet := False, buildings := None,
                                        geometryCache := None, materialCache := None\<rparr>))"

section \<open>Portfolio.getGeometry, Portfolio.getMaterial and Building.getGeometry\<close>

definition geometryTypes :: "string list" where
  "geometryTypes = [''box'', ''plane'', ''cylinder'', ''cone'', ''torus'', ''circle'']"

definition materialTypes :: "string list" where
  "materialTypes = [''standard'', ''basic'', ''phong'']"

text \<open>\<open>this.geometryCache[key]\<close> throws a TypeError once the cache is \<open>null\<close>. A
  cached object is truthy, so the body of the \<open>if\<close> runs exactly when the key is
  absent; the \<open>default\<close> branch throws. The cache is a plain object; the properties
  it inherits from \<open>Object.prototype\<close> are not in the model (none of their names
  begins with a recognized type and \<open>_\<close>, as the key of a recognized type does).\<close>

definition getGeometry ::
  "portfolio \<Rightarrow> string \<Rightarrow> jsval list \<Rightarrow> js_error + cached_geometry \<times> portfolio" where
  "getGeometry p type params =
     (let key = geometryKey type params
      in case geometryCache p of
           None \<Rightarrow> Inl TypeError
         | Some gc \<Rightarrow>
             (case map_of gc key of
                Some g \<Rightarrow> Inr (g, p)
              | None \<Rightarrow>
                  if type \<in> set geometryTypes
                  then let g = \<lparr>geometryResource = objectsCreated p, geometryKind = type,
                                geometryParams = params\<rparr>
                       in Inr (g, p\<lparr>geometryCache := Some (gc @ [(key, g)]),
                                    objectsCreated := objectsCreated p + 1\<rparr>)
                  else Inl (UnknownType type)))"

definition getMaterial ::
  "portfolio \<Rightarrow> string \<Rightarrow> (string \<times> jsval) list \<Rightarrow> js_error + cached_material \<times> portfolio" where
  "getMaterial p type params =
     (let key = materialKey type params
      in case materialCache p of
           None \<Rightarrow> Inl TypeError
         | Some mc \<Rightarrow>
             (case map_of mc key of
                Some m \<Rightarrow> Inr (m, p)
              | None \<Rightarrow>
                  if type \<in> set materialTypes
                  then let m = \<lparr>materialResource = objectsCreated p, materialKind = type,
                                materialParams = params, mapResource = textureOf params\<rparr>
                       in Inr (m, p\<lparr>materialCache := Some (mc @ [(key, m)]),
                                    objectsCreated := objectsCreated p + 1\<rparr>)
                  else Inl (UnknownType type)))"

text \<open>
  \<open>Building.getGeometry\<close> works on the cache object the building was given, or creates
  without a cache. Its \<open>switch\<close> statements know five types and have no \<open>default\<close>
  branch, so the method can return \<open>undefined\<close> (\<open>None\<close>). The result is the value
  returned, the cache and the number of objects created.
\<close>

definition buildingGeometryTypes :: "string list" where
  "buildingGeometryTypes = [''box'', ''plane'', ''cylinder'', ''cone'', ''torus'']"

definition Building_getGeometry ::
  "(string \<times> cached_geometry) list option \<Rightarrow> nat \<Rightarrow> string \<Rightarrow> jsval list \<Rightarrow>
   cached_geometry option \<times> (string \<times> cached_geometry) list option \<times> nat" where
  "Building_getGeometry cache created type params =
     (let g = \<lparr>geometryResource = created, geometryKind = type, geometryParams = params\<rparr>
      in case cache of
           Some gc \<Rightarrow>
             (let key = geometryKey type params
              in case map_of gc key of
                   Some cached \<Rightarrow> (Some cached, cache, created)
                 | None \<Rightarrow>
                     if type \<in> set buildingGeometryTypes
                     then (Some g, Some (gc @ [(key, g)]), created + 1)
                     else (None, cache, created))
         | None \<Rightarrow>
             if type \<in> set buildingGeometryTypes then (Some g, None, created + 1)
             else (None, None, created))"

text \<open>\<open>Building.getMaterial\<close> has the same shape, with three known types.\<close>

definition Building_getMaterial ::
  "(string \<times> cached_material) list option \<Rightarrow> nat \<Rightarrow> string \<Rightarrow> (string \<times> jsval) list \<Rightarrow>
   cached_material option \<times> (string \<times> cached_material) list option \<times> nat" where
  "Building_getMaterial cache created type params =
     (let m = \<lparr>materialResource = created, materialKind = type, materialParams = params,
                mapResource = textureOf params\<rparr>
      in case cache of
           Some mc \<Rightarrow>
             (let key = materialKey type params
              in case map_of mc key of
                   Some cached \<Rightarrow> (Some cached, cache, created)
                 | None \<Rightarrow>
                     if type \<in> set materialTypes
                     then (Some m, Some (mc @ [(key, m)]), created + 1)
                     else (None, cache, created))
         | None \<Rightarrow>
             if type \<in> set materialTypes then (Some m, None, created + 1)
             else (None, None, created))"

text \<open>The caches are well formed when every cached object was created before now and no
  object is cached under two keys, or as a geometry and as a material.\<close>

definition cachedResources :: "portfolio \<Rightarrow> resource list" where
  "cachedResources p =
     (case geometryCache p of
        None \<Rightarrow> []
      | Some gc \<Rightarrow> map (geometryResource \<circ> snd) gc)
     @ (case materialCache p of
          None \<Rightarrow> []
        | Some mc \<Rightarrow> map (materialResource \<circ> snd) mc)"

definition cachedKeys :: "portfolio \<Rightarrow> string list \<times> string list" where
  "cachedKeys p =
     (case geometryCache p of None \<Rightarrow> [] | Some gc \<Rightarrow> map fst gc,
      case materialCache p of None \<Rightarrow> [] | Some mc \<Rightarrow> map fst mc)"

definition wellFormed :: "portfolio \<Rightarrow> bool" where
  "wellFormed p =
     (distinct (fst (cachedKeys p)) \<and> distinct (snd (cachedKeys p))
      \<and> distinct (cachedResources p)
      \<and> list_all (\<lambda>r. r < objectsCreated p) (cachedResources p))"

text \<open>The identities of the handles that two calls in a row return.\<close>

definition twoGeometries ::
  "portfolio \<Rightarrow> string \<Rightarrow> jsval list \<Rightarrow> string \<Rightarrow> jsval list \<Rightarrow> js_error + resource \<times> resource" where
  "twoGeometries p t1 a1 t2 a2 =
     (case getGeometry p t1 a1 of
        Inl e \<Rightarrow> Inl e
      | Inr r1 \<Rightarrow>
          (case getGeometry (snd r1) t2 a2 of
             Inl e \<Rightarrow> Inl e
           | Inr r2 \<Rightarrow> Inr (geometryResource (fst r1), geometryResource (fst r2))))"

definition twoMaterials ::
  "portfolio \<Rightarrow> string \<Rightarrow> (string \<times> jsval) list \<Rightarrow> string \<Rightarrow> (string \<times> jsval) list \<Rightarrow>
   js_error + resource \<times> resource" where
  "twoMaterials p t1 a1 t2 a2 =
     (case getMaterial p t1 a1 of
        Inl e \<Rightarrow> Inl e
      | Inr r1 \<Rightarrow>
          (case getMaterial (snd r1) t2 a2 of
             Inl e \<Rightarrow> Inl e
           | Inr r2 \<Rightarrow> Inr (materialResource (fst r1), materialResource (fst r2))))"

text \<open>A city whose caches are still empty, and a small city in character mode: one
  landmark with a loaded logo, one residential building, two cached geometries and two
  cached materials, the second being the logo's material, made from the logo's texture
  (whose JSON text is cut short here).\<close>

definition logoParams :: "(string \<times> jsval) list" where
  "logoParams = [(''map'', JTexture 20 ''{}''), (''transparent'', JBool True), (''side'', JNum 0)]"

definition emptyCity :: portfolio where
  "emptyCity =
     \<lparr>clickListener = True, buildings = Some [], character = None, minimap = None,
      geometryCache = Some [], materialCache = Some [], renderer = Some 0, sceneSet = True,
      objectsCreated = 1, released = []\<rparr>"

definition smallCity :: portfolio where
  "smallCity =
     \<lparr>clickListener = True,
      buildings = Some
        [\<lparr>logoMap = Some 20, geometryCacheGiven = True, materialCacheGiven = True,
          meshResources = [1, 10]\<rparr>,
         \<lparr>logoMap = None, geometryCacheGiven = True, materialCacheGiven = True,
          meshResources = [2, 11]\<rparr>],
      character = Some \<lparr>modelResources = None, tempModelResources = Some [30, 31],
                           shadowResources = Some [32, 33]\<rparr>,
      minimap = Some True,
      geometryCache = Some
        [(geometryKey ''box'' [JNum 8, JNum 16, JNum 8],
          \<lparr>geometryResource = 1, geometryKind = ''box'',
           geometryParams = [JNum 8, JNum 16, JNum 8]\<rparr>),
         (geometryKey ''box'' [JNum 4, JNum 8, JNum 4],
          \<lparr>geometryResource = 2, geometryKind = ''box'',
           geometryParams = [JNum 4, JNum 8, JNum 4]\<rparr>)],
      materialCache = Some
        [(materialKey ''standard'' [(''color'', JNum 0x7ea8c4)],
          \<lparr>materialResource = 10, materialKind = ''standard'',
           materialParams = [(''color'', JNum 0x7ea8c4)], mapResource = None\<rparr>),
         (materialKey ''basic'' logoParams,
          \<lparr>materialResource = 11, materialKind = ''basic'',
           materialParams = logoParams, mapResource = textureOf logoParams\<rparr>)],
      renderer = Some 40,
      sceneSet = True,
      objectsCreated = 41,
      released = []\<rparr>"

section \<open>Properties of the window batch\<close>

lemma placePair_written:
  "written s = [0..<instanceIndex s] \<Longrightarrow>
   written (placePair rnd s) = [0..<instanceIndex (placePair rnd s)]"
  by (simp add: placePair_def)

lemma rows_written:
  "written s = [0..<instanceIndex s] \<Longrightarrow>
   written (fold (\<lambda>j. placePair rnd) js s)
     = [0..<instanceIndex (fold (\<lambda>j. placePair rnd) js s)]"
  by (induction js arbitrary: s) (simp_all add: placePair_written)

lemma columns_written:
  "written s = [0..<instanceIndex s] \<Longrightarrow>
   written (fold (\<lambda>i. fold (\<lambda>j. placePair rnd) js) is s)
     = [0..<instanceIndex (fold (\<lambda>i. fold (\<lambda>j. placePair rnd) js) is s)]"
  by (induction "is" arbitrary: s) (simp_all add: rows_written)

lemma windowLoop_written:
  "written s = [0..<instanceIndex s] \<Longrightarrow>
   written (windowLoop rnd c r s) = [0..<instanceIndex (windowLoop rnd c r s)]"
  unfolding windowLoop_def by (rule columns_written)

lemma placePair_no_skip:
  "rnd (draws s) \<le> 8 / 10 \<Longrightarrow> instanceIndex (placePair rnd s) = instanceIndex s + 2"
  unfolding placePair_def by (simp only: not_less [symmetric] if_False) simp

lemma rows_no_skip:
  "\<forall>k. rnd k \<le> 8 / 10 \<Longrightarrow>
   instanceIndex (fold (\<lambda>j. placePair rnd) js s) = instanceIndex s + 2 * length js"
  by (induction js arbitrary: s) (simp_all add: placePair_no_skip)

lemma columns_no_skip:
  "\<forall>k. rnd k \<le> 8 / 10 \<Longrightarrow>
   instanceIndex (fold (\<lambda>i. fold (\<lambda>j. placePair rnd) js) is s)
     = instanceIndex s + 2 * length is * length js"
  by (induction "is" arbitrary: s) (simp_all add: rows_no_skip algebra_simps)

lemma windowLoop_no_skip:
  "\<forall>k. rnd k \<le> 8 / 10 \<Longrightarrow>
   instanceIndex (windowLoop rnd c r s) = instanceIndex s + 2 * nat c * nat r"
  by (simp add: windowLoop_def columns_no_skip)

text \<open>
  Claim C10 says that the instances written by \<open>addWindows\<close> never exceed the reserved
  capacity \<open>totalWindows = windowsHorizontal * windowsVertical * 4\<close>. The side faces
  are sized by the depth, the capacity by the width: for a building of width 2, height 2
  and depth 5 in which no window is skipped, the capacity is 48 while 84 instances are
  written, at the indices 0 to 83.
\<close>

theorem addWindows_exceeds_capacity:
  "fst (addWindows (\<lambda>_. 0) 2 2 5) = 48
   \<and> instanceIndex (snd (addWindows (\<lambda>_. 0) 2 2 5)) = 84
   \<and> written (snd (addWindows (\<lambda>_. 0) 2 2 5)) = [0..<84]"
  by (simp add: addWindows_def Let_def windowLoop_no_skip windowLoop_written)

section \<open>Properties of the update scheduler\<close>

lemma distanceTo_cutoff: "distanceTo a b > 150 \<longleftrightarrow> distanceToSquared a b > 22500"
proof -
  have "sqrt 22500 = 150" by (rule real_sqrt_unique) simp_all
  then show ?thesis unfolding distanceTo_def by (metis real_sqrt_less_iff)
qed

lemma count_animate_notin:
  "bid b \<notin> bid ` set bs \<Longrightarrow> count_list (animate cam fr vis bs) (bid b) = 0"
  by (induction bs) (auto simp: animate_def updateIfActive_def split: option.splits)

lemma count_animate:
  "distinct (map bid bs) \<Longrightarrow> b \<in> set bs \<Longrightarrow>
   count_list (animate cam fr vis bs) (bid b) = length (updateIfActive cam fr vis b)"
proof (induction bs)
  case Nil
  then show ?case by simp
next
  case (Cons a bs)
  show ?case
  proof (cases "a = b")
    case True
    with Cons.prems have "bid b \<notin> bid ` set bs" by auto
    then have "count_list (animate cam fr vis bs) (bid b) = 0"
      by (rule count_animate_notin)
    moreover have "count_list (updateIfActive cam fr vis b) (bid b)
        = length (updateIfActive cam fr vis b)"
      by (simp add: updateIfActive_def split: option.splits)
    ultimately show ?thesis using True by (simp add: animate_def)
  next
    case False
    with Cons.prems have in_bs: "b \<in> set bs" and ne: "bid a \<noteq> bid b" by auto
    have "count_list (updateIfActive cam fr vis a) (bid b) = 0"
      using ne by (simp add: updateIfActive_def split: option.splits)
    moreover have "count_list (animate cam fr vis bs) (bid b)
        = length (updateIfActive cam fr vis b)"
      using Cons.IH Cons.prems in_bs by simp
    ultimately show ?thesis by (simp add: animate_def)
  qed
qed

text \<open>
  What the scheduler does with a building that has a mesh, when the list holds each
  building once: none of its \<open>update\<close> calls beyond the distance 150, whatever the set
  and the frustum say, and exactly one for a member of the always-active set within that
  distance.
\<close>

lemma scheduler_update_calls:
  "distinct (map bid bs) \<Longrightarrow> b \<in> set bs \<Longrightarrow> mesh b = Some m \<Longrightarrow>
   (distanceTo (position m) cam > 150 \<longrightarrow>
      count_list (animate cam fr vis bs) (bid b) = 0)
   \<and> (distanceTo (position m) cam \<le> 150 \<and> bid b \<in> vis \<longrightarrow>
      count_list (animate cam fr vis bs) (bid b) = 1)"
  by (simp add: count_animate updateIfActive_def)

text \<open>
  Claim C1 says that a building of the always-active set receives exactly one
  \<open>update\<close> call per frame whatever its distance to the camera, which is also what the
  comment where the set is filled says (important buildings are always updated). The
  distance test of \<open>animate\<close> comes before the test of the set: a landmark of the set
  that is 200 units from the camera receives no call in the frame, although the frustum
  accepts every object, while the first version of \<open>animate\<close> calls it once.
\<close>

theorem always_active_far_not_updated:
  "bid farLandmark \<in> {0, 1}
   \<and> count_list (animate origin (\<lambda>_. True) {0, 1} [nearLandmark, farLandmark])
        (bid farLandmark) = 0
   \<and> count_list (animateAll [nearLandmark, farLandmark]) (bid farLandmark) = 1"
  by (simp add: animate_def animateAll_def updateIfActive_def nearLandmark_def farLandmark_def
      origin_def distanceTo_cutoff distanceToSquared_def)

section \<open>Properties of residential placement\<close>

lemma gridCell_survivors:
  "\<forall>p \<in> set (snd st). \<not> excluded (fst p) (snd p) \<Longrightarrow>
   \<forall>p \<in> set (snd (gridCell rnd x z st)). \<not> excluded (fst p) (snd p)"
  by (auto simp: gridCell_def Let_def)

lemma gridRow_survivors:
  "\<forall>p \<in> set (snd st). \<not> excluded (fst p) (snd p) \<Longrightarrow>
   \<forall>p \<in> set (snd (fold (\<lambda>z. gridCell rnd x z) zs st)). \<not> excluded (fst p) (snd p)"
proof (induction zs arbitrary: st)
  case Nil
  then show ?case by simp
next
  case (Cons z zs)
  show ?case using Cons.IH [OF gridCell_survivors [OF Cons.prems]] by simp
qed

lemma gridRows_survivors:
  "\<forall>p \<in> set (snd st). \<not> excluded (fst p) (snd p) \<Longrightarrow>
   \<forall>p \<in> set (snd (fold (\<lambda>x. fold (\<lambda>z. gridCell rnd x z) zs) xs st)).
      \<not> excluded (fst p) (snd p)"
proof (induction xs arbitrary: st)
  case Nil
  then show ?case by simp
next
  case (Cons x xs)
  show ?case using Cons.IH [OF gridRow_survivors [OF Cons.prems]] by simp
qed

lemma gridPositions_survivors:
  "\<forall>p \<in> set (snd (gridPositions rnd)). \<not> excluded (fst p) (snd p)"
  unfolding gridPositions_def by (rule gridRows_survivors) simp

lemma index_in_range:
  assumes "0 \<le> r" and "r < 1" and "0 < n"
  shows "0 \<le> \<lfloor>r * real n\<rfloor> \<and> \<lfloor>r * real n\<rfloor> < int n"
proof -
  have "0 \<le> r * real n" using assms by simp
  then have lo: "0 \<le> \<lfloor>r * real n\<rfloor>" by simp
  have "r * real n < real n" using assms by simp
  then have "\<lfloor>r * real n\<rfloor> < int n" by (simp add: floor_less_iff)
  with lo show ?thesis by simp
qed

lemma splice1_in_range:
  "0 \<le> i \<Longrightarrow> i < int (length xs) \<Longrightarrow>
   splice1 xs i = take (nat i) xs @ drop (Suc (nat i)) xs"
  by (simp add: splice1_def Let_def min_def)

lemma mset_splice1:
  assumes "0 \<le> i" and "i < int (length xs)"
  shows "add_mset (xs ! nat i) (mset (splice1 xs i)) = mset xs"
proof -
  have n: "nat i < length xs" using assms by simp
  have "xs = take (nat i) xs @ xs ! nat i # drop (Suc (nat i)) xs"
    using n by (simp add: id_take_nth_drop)
  then have "mset xs = mset (take (nat i) xs @ xs ! nat i # drop (Suc (nat i)) xs)" by simp
  then show ?thesis using assms by (simp add: splice1_in_range)
qed

lemma length_splice1:
  "0 \<le> i \<Longrightarrow> i < int (length xs) \<Longrightarrow> Suc (length (splice1 xs i)) = length xs"
  by (simp add: splice1_in_range)

lemma selectLoop_spec:
  "unit_interval rnd \<Longrightarrow> length selected \<le> n \<Longrightarrow>
    (\<exists>drawn. selectLoop rnd n k positions selected = selected @ map Some drawn
       \<and> length drawn = min (n - length selected) (length positions)
       \<and> mset drawn \<subseteq># mset positions)"
proof (induction rnd n k positions selected rule: selectLoop.induct)
  case (1 rnd buildingCount k positions selectedPositions)
  show ?case
  proof (cases "length selectedPositions < buildingCount \<and> length positions > 0")
    case False
    then have "selectLoop rnd buildingCount k positions selectedPositions = selectedPositions"
      by (subst selectLoop.simps) (simp only: False if_False)
    moreover have "min (buildingCount - length selectedPositions) (length positions) = 0"
      using False "1.prems" by auto
    ultimately show ?thesis by (intro exI [of _ "[]"]) simp
  next
    case True
    define index where "index = \<lfloor>rnd k * real (length positions)\<rfloor>"
    have ui: "0 \<le> rnd k" "rnd k < 1" using "1.prems"(1) unfolding unit_interval_def by auto
    have rng: "0 \<le> index" "index < int (length positions)"
      using index_in_range [OF ui, of "length positions"] True unfolding index_def by auto
    have el: "element_at positions index = Some (positions ! nat index)"
      using rng by (simp add: element_at_def)
    have step: "selectLoop rnd buildingCount k positions selectedPositions
        = selectLoop rnd buildingCount (k + 1) (splice1 positions index)
            (selectedPositions @ [element_at positions index])"
      using True by (subst selectLoop.simps) (simp add: index_def Let_def)
    have "length (selectedPositions @ [element_at positions index]) \<le> buildingCount"
      using True by simp
    from "1.IH" [OF True index_def "1.prems"(1) this]
    obtain drawn where d:
      "selectLoop rnd buildingCount (k + 1) (splice1 positions index)
          (selectedPositions @ [element_at positions index])
        = (selectedPositions @ [element_at positions index]) @ map Some drawn"
      "length drawn = min (buildingCount - length (selectedPositions @ [element_at positions index]))
          (length (splice1 positions index))"
      "mset drawn \<subseteq># mset (splice1 positions index)"
      by blast
    let ?drawn = "positions ! nat index # drawn"
    have "selectLoop rnd buildingCount k positions selectedPositions
        = selectedPositions @ map Some ?drawn"
      using step d(1) el by simp
    moreover have "length ?drawn = min (buildingCount - length selectedPositions) (length positions)"
      using d(2) True length_splice1 [OF rng] by auto
    moreover have "mset ?drawn \<subseteq># mset positions"
      using d(3) mset_splice1 [OF rng] by (metis mset.simps(2) mset_subset_eq_add_mset_cancel)
    ultimately show ?thesis by blast
  qed
qed

lemma element_at_in_set: "element_at xs i = Some p \<Longrightarrow> p \<in> set xs"
  by (auto simp: element_at_def split: if_splits)

lemma set_splice1: "set (splice1 xs i) \<subseteq> set xs"
  by (auto simp: splice1_def Let_def dest: in_set_takeD in_set_dropD)

lemma selectLoop_sources:
  "Some p \<in> set (selectLoop rnd n k positions selected) \<Longrightarrow>
   Some p \<in> set selected \<or> p \<in> set positions"
proof (induction rnd n k positions selected rule: selectLoop.induct)
  case (1 rnd buildingCount k positions selectedPositions)
  show ?case
  proof (cases "length selectedPositions < buildingCount \<and> length positions > 0")
    case False
    then have "selectLoop rnd buildingCount k positions selectedPositions = selectedPositions"
      by (subst selectLoop.simps) (simp only: False if_False)
    with "1.prems" show ?thesis by simp
  next
    case True
    define index where "index = \<lfloor>rnd k * real (length positions)\<rfloor>"
    have step: "selectLoop rnd buildingCount k positions selectedPositions
        = selectLoop rnd buildingCount (k + 1) (splice1 positions index)
            (selectedPositions @ [element_at positions index])"
      using True by (subst selectLoop.simps) (simp add: index_def Let_def)
    from "1.IH" [OF True index_def] "1.prems" step
    have "Some p \<in> set (selectedPositions @ [element_at positions index])
        \<or> p \<in> set (splice1 positions index)"
      by simp
    then show ?thesis
      using set_splice1 [of positions index] element_at_in_set [of positions index p]
      by auto
  qed
qed

lemma placementsFrom_sources:
  "placementsFrom rnd n k positions = Inr ps \<Longrightarrow> set ps \<subseteq> set positions"
proof
  fix p
  assume r: "placementsFrom rnd n k positions = Inr ps" and p: "p \<in> set ps"
  let ?sel = "selectLoop rnd n k positions []"
  from r have none: "None \<notin> set ?sel" and ps: "ps = map the ?sel"
    by (auto simp: placementsFrom_def Let_def split: if_splits)
  from p ps obtain q where q: "q \<in> set ?sel" "p = the q" by auto
  with none have qp: "q = Some p" by (cases q) auto
  have "Some p \<in> set ?sel" using q(1) unfolding qp .
  from selectLoop_sources [OF this] show "p \<in> set positions" by simp
qed

lemma placementsFrom_returns:
  assumes "unit_interval rnd"
  shows "\<exists>ps. placementsFrom rnd n k positions = Inr ps
           \<and> length ps = min n (length positions) \<and> mset ps \<subseteq># mset positions"
proof -
  from selectLoop_spec [OF assms, of "[]" n k positions]
  obtain drawn where d: "selectLoop rnd n k positions [] = map Some drawn"
    "length drawn = min n (length positions)" "mset drawn \<subseteq># mset positions"
    by auto
  have "placementsFrom rnd n k positions = Inr drawn"
    using d(1) by (auto simp: placementsFrom_def Let_def comp_def)
  with d show ?thesis by simp
qed

lemma footprint_excluded:
  assumes "l \<in> set landmarks" and "insideFootprint x z l"
  shows "excluded x z"
proof -
  from assms(1) consider
    (main) "l = (0, 0, 8, 8)" | (kubernetes) "l = (- 16, - 16, 6, 6)"
    | (aws) "l = (16, - 16, 6, 6)" | (naver) "l = (16, 16, 6, 6)"
    | (kt) "l = (- 16, 16, 6, 6)" | (nhn) "l = (0, - 24, 6, 6)"
    unfolding landmarks_def by auto
  then show ?thesis
  proof cases
    case main
    with assms(2) have "\<bar>x\<bar> < 12 \<and> \<bar>z\<bar> < 12" by simp
    then show ?thesis unfolding excluded_def by blast
  next
    case kubernetes
    with assms(2) have "\<bar>x + 16\<bar> < 8 \<and> \<bar>z + 16\<bar> < 8" by simp
    then show ?thesis unfolding excluded_def by blast
  next
    case aws
    with assms(2) have "\<bar>x - 16\<bar> < 8 \<and> \<bar>z + 16\<bar> < 8" by simp
    then show ?thesis unfolding excluded_def by blast
  next
    case naver
    with assms(2) have "\<bar>x - 16\<bar> < 8 \<and> \<bar>z - 16\<bar> < 8" by simp
    then show ?thesis unfolding excluded_def by blast
  next
    case kt
    with assms(2) have "\<bar>x + 16\<bar> < 8 \<and> \<bar>z - 16\<bar> < 8" by simp
    then show ?thesis unfolding excluded_def by blast
  next
    case nhn
    with assms(2) have "\<bar>x\<bar> < 8 \<and> \<bar>z + 24\<bar> < 8" by simp
    then show ?thesis unfolding excluded_def by blast
  qed
qed

text \<open>
  Claim C6. Every position that \<open>addResidentialDistrict\<close> hands to the building
  constructor lies outside each of the eight exclusion rectangles, for any random source,
  and so outside the footprint of every landmark; and with draws in the unit interval the
  placement does return its positions.
\<close>

theorem residential_outside_exclusions:
  "(\<forall>ps. residentialPlacements rnd n = Inr ps \<longrightarrow>
       (\<forall>p \<in> set ps. \<not> excluded (fst p) (snd p)
          \<and> (\<forall>l \<in> set landmarks. \<not> insideFootprint (fst p) (snd p) l)))
   \<and> (unit_interval rnd \<longrightarrow> (\<exists>ps. residentialPlacements rnd n = Inr ps))"
  using placementsFrom_sources [of rnd n "fst (gridPositions rnd)" "snd (gridPositions rnd)"]
    gridPositions_survivors [of rnd]
    placementsFrom_returns [of rnd n "fst (gridPositions rnd)" "snd (gridPositions rnd)"]
    footprint_excluded
  unfolding residentialPlacements_def by blast

theorem residential_outside_exclusions_witness:
  "residentialPlacements (\<lambda>_. 1 / 2) 1 = Inr [(- 10, 30)] \<and> \<not> excluded (- 10) 30"
proof -
  have pool: "length (snd (gridPositions (\<lambda>_. 1 / 2))) = 121
      \<and> snd (gridPositions (\<lambda>_. 1 / 2)) ! 60 = (- 10, 30)"
    by (simp add: gridPositions_def gridCells_def gridSize_def gridCell_def excluded_def
        upto.simps Let_def)
  have r: "residentialPlacements (\<lambda>_. 1 / 2) 1 = Inr [(- 10, 30)]"
    unfolding residentialPlacements_def placementsFrom_def
    by (subst selectLoop.simps, subst selectLoop.simps) (simp add: pool element_at_def Let_def)
  from residential_outside_exclusions [of "\<lambda>_. 1 / 2" 1] r
  have "\<forall>p \<in> set [(- 10, 30)]. \<not> excluded (fst p) (snd p)" by blast
  with r show ?thesis by simp
qed

text \<open>
  Claim C7. The selection stage, run on a pool of \<open>M\<close> surviving candidates with
  \<open>N > M\<close> placements requested (\<open>residentialPlacements\<close> runs it on the pool of
  the grid): it raises no error and returns exactly the \<open>M\<close> candidates of the pool, each
  drawn once.
\<close>

theorem fewer_candidates_than_requested:
  assumes "unit_interval rnd" and "length positions < n"
  shows "\<exists>ps. placementsFrom rnd n k positions = Inr ps
           \<and> length ps = length positions \<and> mset ps = mset positions"
proof -
  from placementsFrom_returns [OF assms(1), of n k positions]
  obtain ps where ps: "placementsFrom rnd n k positions = Inr ps"
    "length ps = min n (length positions)" "mset ps \<subseteq># mset positions"
    by blast
  from ps(2) assms(2) have len: "length ps = length positions" by simp
  then have "size (mset ps) = size (mset positions)" by simp
  with ps(3) have "mset ps = mset positions"
    by (metis mset_subset_size nat_less_le subset_mset.le_imp_less_or_eq)
  with ps(1) len show ?thesis by blast
qed

theorem fewer_candidates_than_requested_witness:
  "placementsFrom (\<lambda>_. 1 / 2) 3 0 [(30, 30), (40, 40)] = Inr [(40, 40), (30, 30)]
   \<and> length [(40, 40) :: point, (30, 30)] = length [(30, 30) :: point, (40, 40)]
   \<and> mset [(40, 40) :: point, (30, 30)] = mset [(30, 30), (40, 40)]"
proof -
  have ui: "unit_interval (\<lambda>_. 1 / 2)" by (simp add: unit_interval_def)
  have len: "length [(30, 30) :: point, (40, 40)] < 3" by simp
  have r: "placementsFrom (\<lambda>_. 1 / 2) 3 0 [(30, 30), (40, 40)] = Inr [(40, 40), (30, 30)]"
    by (simp add: placementsFrom_def selectLoop.simps element_at_def splice1_def Let_def)
  from fewer_candidates_than_requested [OF ui len, of 0] r show ?thesis by auto
qed

section \<open>Properties of the tree sampler\<close>



lemma samplePoint_step:
  "samplePoint rnd k =
     (if rejected (fst (candidate rnd k)) (snd (candidate rnd k)) then samplePoint rnd (k + 2)
      else Some (candidate rnd k, k + 2))"
  by (subst samplePoint.simps) (auto simp: candidate_def rejected_def Let_def)

lemma samplePoint_sound:
  assumes "samplePoint rnd k = Some r"
  shows "\<exists>n. r = (candidate rnd (k + 2 * n), k + 2 * n + 2)
     \<and> \<not> rejected (fst (candidate rnd (k + 2 * n))) (snd (candidate rnd (k + 2 * n)))"
  using assms
proof (induct rule: samplePoint.raw_induct [rotated 1, consumes 1, case_names step])
  case (step f rnd k r)
  note IH = step(1) and body = step(2)
  show ?case
  proof (cases "rejected (fst (candidate rnd k)) (snd (candidate rnd k))")
    case True
    with body have "f rnd (k + 2) = Some r"
      by (auto simp: candidate_def rejected_def Let_def split: if_splits)
    from IH [OF this] obtain n where
      "r = (candidate rnd (k + 2 + 2 * n), k + 2 + 2 * n + 2)"
      "\<not> rejected (fst (candidate rnd (k + 2 + 2 * n))) (snd (candidate rnd (k + 2 + 2 * n)))"
      by blast
    then show ?thesis by (intro exI [of _ "Suc n"]) (simp add: add.commute add.left_commute)
  next
    case False
    with body have "r = (candidate rnd k, k + 2)"
      by (auto simp: candidate_def rejected_def Let_def split: if_splits)
    with False show ?thesis by (intro exI [of _ 0]) simp
  qed
qed

lemma samplePoint_complete:
  "\<not> rejected (fst (candidate rnd (k + 2 * n))) (snd (candidate rnd (k + 2 * n))) \<Longrightarrow>
   samplePoint rnd k \<noteq> None"
proof (induction n arbitrary: k)
  case 0
  then show ?case by (subst samplePoint_step) simp
next
  case (Suc n)
  have "samplePoint rnd (k + 2) \<noteq> None"
    using Suc.IH [of "k + 2"] Suc.prems by (simp add: add.commute add.left_commute)
  then show ?case by (subst samplePoint_step) simp
qed

text \<open>
  Claim C8, as the code has it. The \<open>while (!isValid)\<close> loop of \<open>addTrees\<close> has no
  bound on its rounds and reports no failure. Started at draw \<open>k\<close> it returns exactly
  when some later pair of draws gives a candidate that is not rejected, and a point it
  returns lies outside the central square and outside both road bands.
\<close>

theorem samplePoint_returns_iff:
  "(samplePoint rnd k \<noteq> None \<longleftrightarrow>
      (\<exists>n. \<not> rejected (fst (candidate rnd (k + 2 * n))) (snd (candidate rnd (k + 2 * n)))))
   \<and> (\<forall>p k'. samplePoint rnd k = Some (p, k') \<longrightarrow> \<not> rejected (fst p) (snd p))"
proof (intro conjI iffI allI impI)
  assume "samplePoint rnd k \<noteq> None"
  then obtain r where "samplePoint rnd k = Some r" by auto
  from samplePoint_sound [OF this]
  show "\<exists>n. \<not> rejected (fst (candidate rnd (k + 2 * n))) (snd (candidate rnd (k + 2 * n)))"
    by blast
next
  assume "\<exists>n. \<not> rejected (fst (candidate rnd (k + 2 * n))) (snd (candidate rnd (k + 2 * n)))"
  then show "samplePoint rnd k \<noteq> None" using samplePoint_complete by blast
next
  fix p k'
  assume "samplePoint rnd k = Some (p, k')"
  from samplePoint_sound [OF this] show "\<not> rejected (fst p) (snd p)" by auto
qed

theorem samplePoint_returns_iff_witness:
  "samplePoint (\<lambda>_. 0) 0 = Some ((- 50, - 50), 2) \<and> \<not> rejected (- 50) (- 50)"
proof -
  have r: "samplePoint (\<lambda>_. 0) 0 = Some ((- 50, - 50), 2)"
    by (subst samplePoint_step) (simp add: candidate_def rejected_def)
  from samplePoint_returns_iff [of "\<lambda>_. 0" 0] r
  have "\<not> rejected (fst (- 50 :: real, - 50 :: real)) (snd (- 50 :: real, - 50 :: real))"
    by blast
  with r show ?thesis by simp
qed

lemma never_accepts: "samplePoint (\<lambda>_. 1 / 2) k = None"
proof (cases "samplePoint (\<lambda>_. 1 / 2) k")
  case None
  then show ?thesis .
next
  case (Some r)
  from samplePoint_sound [OF this] show ?thesis by (simp add: candidate_def rejected_def)
qed

text \<open>
  Claim C8 as stated fails: with a random source that always returns 0.5 every candidate
  is the origin, which is rejected, so the loop never ends (the run has no result), and
  neither does \<open>addTrees\<close> for 13 trees.
\<close>

theorem addTrees_diverges: "samplePoint (\<lambda>_. 1 / 2) 0 = None \<and> addTrees (\<lambda>_. 1 / 2) 13 = None"
  unfolding addTrees_def
  by (subst randomTrees.simps) (simp add: never_accepts treePositions_def)

section \<open>Properties of the player controller\<close>

lemma collide_apart:
  "target c = Some t \<Longrightarrow> (\<forall>m. mesh b = Some m \<longrightarrow> \<not> intersectsBox (bounds t) (bounds m)) \<Longrightarrow>
   collide bounds b c = c"
  by (auto simp: collide_def split: option.splits)

lemma fold_collide_apart:
  "target c = Some t \<Longrightarrow>
   \<forall>b \<in> set bs. \<forall>m. mesh b = Some m \<longrightarrow> \<not> intersectsBox (bounds t) (bounds m) \<Longrightarrow>
   fold (collide bounds) bs c = c"
  by (induction bs) (simp_all add: collide_apart)

lemma handleCollisions_apart:
  "target c = Some t \<Longrightarrow>
   \<forall>b \<in> set bs. \<forall>m. mesh b = Some m \<longrightarrow> \<not> intersectsBox (bounds t) (bounds m) \<Longrightarrow>
   handleCollisions bounds bs c = c"
  by (simp add: handleCollisions_def fold_collide_apart)

lemma no_input_direction:
  "\<not> moveForward c \<Longrightarrow> \<not> moveBackward c \<Longrightarrow> \<not> moveLeft c \<Longrightarrow> \<not> moveRight c \<Longrightarrow>
   vlength (inputDirection c) = 0"
  by (simp add: inputDirection_def vlength_def)

text \<open>
  Claim C9. A tick with no directional flag set, for a player whose box meets the box of
  no building that has a mesh, leaves the position of the player's model unchanged (the
  whole controller state is unchanged).
\<close>

theorem update_at_rest:
  assumes "\<not> moveForward c" and "\<not> moveBackward c" and "\<not> moveLeft c" and "\<not> moveRight c"
    and "target c = Some t"
    and "\<forall>b \<in> set bs. \<forall>m. mesh b = Some m \<longrightarrow> \<not> intersectsBox (bounds t) (bounds m)"
  shows "map_option position (target (update toCamera bounds delta bs c))
           = Some (position t)
         \<and> update toCamera bounds delta bs c = c"
  using assms
  by (simp add: update_def Let_def no_input_direction handleCollisions_apart)

theorem update_at_rest_witness:
  "map_option position (target (update (\<lambda>v. v) unitBounds (1 / 60) [tower] idlePlayer))
     = Some \<lparr>vx = 0, vy = 1, vz = 0\<rparr>"
proof -
  have f: "\<not> moveForward idlePlayer" and b: "\<not> moveBackward idlePlayer"
    and l: "\<not> moveLeft idlePlayer" and r: "\<not> moveRight idlePlayer"
    by (simp_all add: idlePlayer_def)
  have t: "target idlePlayer = Some capsule" by (simp add: target_def idlePlayer_def)
  have apart: "\<forall>b \<in> set [tower]. \<forall>m. mesh b = Some m \<longrightarrow>
      \<not> intersectsBox (unitBounds capsule) (unitBounds m)"
    by (simp add: tower_def capsule_def unitBounds_def intersectsBox_def)
  from update_at_rest [OF f b l r t apart, of "\<lambda>v. v" "1 / 60"]
  have "map_option position (target (update (\<lambda>v. v) unitBounds (1 / 60) [tower] idlePlayer))
      = Some (position capsule)"
    by (rule conjunct1)
  also have "position capsule = \<lparr>vx = 0, vy = 1, vz = 0\<rparr>" by (simp add: capsule_def)
  finally show ?thesis .
qed

section \<open>Properties of highlight and unhighlight\<close>

lemma highlightPart_color: "color (snd (highlightPart logo v marker st) m) = color (st m)"
  by (simp add: highlightPart_def glow_def split: visual.splits option.splits)

lemma unhighlightPart_color: "color (snd (unhighlightPart logo v marker st) m) = color (st m)"
  by (simp add: unhighlightPart_def glow_def split: visual.splits option.splits)

lemma traverse_color:
  assumes "\<And>logo v marker st. color (snd (f logo v marker st) m) = color (st m)"
  shows "color (snd (traverse f p st) m) = color (st m)"
    and "color (snd (traverseAll f ps st) m) = color (st m)"
  using assms
  by (induction f p st and f ps st rule: traverse_traverseAll.induct) (simp_all add: Let_def)

lemma unhighlightPart_dark:
  "dark st m \<Longrightarrow> dark (snd (unhighlightPart logo v marker st)) m"
  by (simp add: unhighlightPart_def glow_def dark_def split: visual.splits option.splits)

lemma unhighlight_keeps_dark:
  "dark st m \<Longrightarrow> dark (snd (traverse unhighlightPart p st)) m"
  "dark st m \<Longrightarrow> dark (snd (traverseAll unhighlightPart ps st)) m"
proof (induction unhighlightPart p st and unhighlightPart ps st rule: traverse_traverseAll.induct)
  case (1 logo v marker cs st)
  then show ?case by (simp add: Let_def unhighlightPart_dark)
next
  case (2 st)
  then show ?case by simp
next
  case (3 c cs st)
  then show ?case by (simp add: Let_def)
qed

lemma unhighlightPart_resets:
  "m \<in> (case v of
          InstancedMesh m \<Rightarrow> (if logo then {} else {m})
        | Mesh (Some m) \<Rightarrow> (if \<not> logo \<and> truthy marker then {m} else {})
        | _ \<Rightarrow> {}) \<Longrightarrow>
   dark (snd (unhighlightPart logo v marker st)) m"
  by (auto simp: unhighlightPart_def glow_def dark_def split: visual.splits option.splits if_splits)

lemma unhighlight_resets:
  "m \<in> resetMaterials p \<Longrightarrow> dark (snd (traverse unhighlightPart p st)) m"
  "m \<in> (\<Union>c \<in> set ps. resetMaterials c) \<Longrightarrow> dark (snd (traverseAll unhighlightPart ps st)) m"
proof (induction unhighlightPart p st and unhighlightPart ps st rule: traverse_traverseAll.induct)
  case (1 logo v marker cs st)
  note IH = "1" (1) and prems = "1" (2)
  from prems consider
    (here) "m \<in> (case v of
          InstancedMesh m \<Rightarrow> (if logo then {} else {m})
        | Mesh (Some m) \<Rightarrow> (if \<not> logo \<and> truthy marker then {m} else {})
        | _ \<Rightarrow> {})"
    | (below) "m \<in> (\<Union>c \<in> set cs. resetMaterials c)"
    by auto
  then show ?case
  proof cases
    case here
    then have "dark (snd (unhighlightPart logo v marker st)) m" by (rule unhighlightPart_resets)
    then show ?thesis by (simp add: Let_def unhighlight_keeps_dark)
  next
    case below
    from IH [OF refl this] show ?thesis by (simp add: Let_def)
  qed
next
  case (2 st)
  then show ?case by simp
next
  case (3 c cs st)
  note IH_head = "3" (1) and IH_tail = "3" (2) and prems = "3" (3)
  show ?case
  proof (cases "m \<in> resetMaterials c")
    case True
    from IH_head [OF this] have "dark (snd (traverse unhighlightPart c st)) m" .
    then show ?thesis by (simp add: Let_def unhighlight_keeps_dark)
  next
    case False
    with prems have "m \<in> (\<Union>c \<in> set cs. resetMaterials c)" by simp
    from IH_tail [OF refl this] show ?thesis by (simp add: Let_def)
  qed
qed

lemma highlight_marks:
  "m \<in> instancedMaterials p \<or> (m \<in> meshMaterials p \<and> color (st m) \<noteq> 0) \<Longrightarrow>
   m \<in> resetMaterials (fst (traverse highlightPart p st))"
  "m \<in> (\<Union>c \<in> set ps. instancedMaterials c)
     \<or> (m \<in> (\<Union>c \<in> set ps. meshMaterials c) \<and> color (st m) \<noteq> 0) \<Longrightarrow>
   m \<in> (\<Union>c \<in> set (fst (traverseAll highlightPart ps st)). resetMaterials c)"
proof (induction highlightPart p st and highlightPart ps st rule: traverse_traverseAll.induct)
  case (1 logo v marker cs st)
  note IH = "1" (1) and prems = "1" (2)
  let ?r = "highlightPart logo v marker st"
  have col: "color (snd ?r m) = color (st m)" by (rule highlightPart_color)
  from prems consider
    (inst) "v = InstancedMesh m" "\<not> logo"
    | (mesh) "v = Mesh (Some m)" "\<not> logo" "color (st m) \<noteq> 0"
    | (below) "m \<in> (\<Union>c \<in> set cs. instancedMaterials c)
        \<or> (m \<in> (\<Union>c \<in> set cs. meshMaterials c) \<and> color (st m) \<noteq> 0)"
    by (auto split: visual.splits option.splits if_splits)
  then show ?case
  proof cases
    case inst
    then show ?thesis by (simp add: Let_def)
  next
    case mesh
    then have "truthy (fst ?r)"
      by (auto simp: highlightPart_def truthy_def split: option.splits)
    with mesh show ?thesis by (simp add: Let_def)
  next
    case below
    with col have "m \<in> (\<Union>c \<in> set cs. instancedMaterials c)
        \<or> (m \<in> (\<Union>c \<in> set cs. meshMaterials c) \<and> color (snd ?r m) \<noteq> 0)"
      by simp
    from IH [OF refl this] show ?thesis by (simp add: Let_def)
  qed
next
  case (2 st)
  then show ?case by simp
next
  case (3 c cs st)
  note IH_head = "3" (1) and IH_tail = "3" (2) and prems = "3" (3)
  let ?r = "traverse highlightPart c st"
  have col: "color (snd ?r m) = color (st m)"
    by (rule traverse_color(1)) (rule highlightPart_color)
  from prems consider
    (head) "m \<in> instancedMaterials c \<or> (m \<in> meshMaterials c \<and> color (st m) \<noteq> 0)"
    | (tail) "m \<in> (\<Union>c \<in> set cs. instancedMaterials c)
        \<or> (m \<in> (\<Union>c \<in> set cs. meshMaterials c) \<and> color (st m) \<noteq> 0)"
    by auto
  then show ?case
  proof cases
    case head
    from IH_head [OF this] show ?thesis by (simp add: Let_def)
  next
    case tail
    with col have "m \<in> (\<Union>c \<in> set cs. instancedMaterials c)
        \<or> (m \<in> (\<Union>c \<in> set cs. meshMaterials c) \<and> color (snd ?r m) \<noteq> 0)"
      by simp
    from IH_tail [OF refl this] show ?thesis by (simp add: Let_def)
  qed
qed

lemma highlightThenUnhighlight_dark:
  assumes "m \<in> instancedMaterials p \<or> (m \<in> meshMaterials p \<and> color (st m) \<noteq> 0)"
  shows "dark (snd (highlightThenUnhighlight p st)) m"
  unfolding highlightThenUnhighlight_def highlight_def unhighlight_def Let_def
  using highlight_marks(1) [of m p st] assms by (intro unhighlight_resets(1)) blast

lemma highlightThenUnhighlight_color:
  "color (snd (highlightThenUnhighlight p st) m) = color (st m)"
  unfolding highlightThenUnhighlight_def highlight_def unhighlight_def Let_def
  by (simp add: traverse_color(1) highlightPart_color unhighlightPart_color)


lemma highlightChild_color: "color (snd (highlightChild logo v marker st) m) = color (st m)"
  by (simp add: highlightChild_def glow_def split: option.splits)

lemma unhighlightChild_color: "color (snd (unhighlightChild logo v marker st) m) = color (st m)"
  by (simp add: unhighlightChild_def glow_def split: option.splits)

lemma forEachChild_color:
  assumes "\<And>logo v marker st. color (snd (f logo v marker st) m) = color (st m)"
  shows "color (snd (forEachChild f cs st) m) = color (st m)"
  using assms by (induction f cs st rule: forEachChild.induct) (simp_all add: Let_def)

lemma unhighlightChild_dark:
  "dark st m \<Longrightarrow> dark (snd (unhighlightChild logo v marker st)) m"
  by (simp add: unhighlightChild_def glow_def dark_def split: option.splits)

lemma unhighlightChildren_keep_dark:
  "dark st m \<Longrightarrow> dark (snd (forEachChild unhighlightChild cs st)) m"
  by (induction unhighlightChild cs st rule: forEachChild.induct)
    (simp_all add: Let_def unhighlightChild_dark)

lemma markedMaterials_Cons:
  "markedMaterials (Part logo v marker cs # rest) =
     (if \<not> logo \<and> truthy marker then (case materialOf v of None \<Rightarrow> {} | Some m \<Rightarrow> {m}) else {})
       \<union> markedMaterials rest"
  by (auto simp: markedMaterials_def split: option.splits)

lemma childMaterials_Cons:
  "childMaterials (Part logo v marker cs # rest) =
     (if \<not> logo then (case materialOf v of None \<Rightarrow> {} | Some m \<Rightarrow> {m}) else {})
       \<union> childMaterials rest"
  by (auto simp: childMaterials_def split: option.splits)

lemma unhighlightChildren_reset:
  "m \<in> markedMaterials cs \<Longrightarrow> dark (snd (forEachChild unhighlightChild cs st)) m"
proof (induction unhighlightChild cs st rule: forEachChild.induct)
  case (1 st)
  then show ?case by (simp add: markedMaterials_def)
next
  case (2 logo v marker cs rest st)
  note IH = "2" (1) and prems = "2" (2)
  show ?case
  proof (cases "\<not> logo \<and> truthy marker \<and> materialOf v = Some m")
    case True
    then have "dark (snd (unhighlightChild logo v marker st)) m"
      by (simp add: unhighlightChild_def glow_def dark_def)
    then show ?thesis by (simp add: Let_def unhighlightChildren_keep_dark)
  next
    case False
    with prems have "m \<in> markedMaterials rest"
      by (auto simp: markedMaterials_Cons split: option.splits if_splits)
    from IH [OF refl this] show ?thesis by (simp add: Let_def)
  qed
qed

lemma highlightChildren_mark:
  "m \<in> childMaterials cs \<Longrightarrow> color (st m) \<noteq> 0 \<Longrightarrow>
   m \<in> markedMaterials (fst (forEachChild highlightChild cs st))"
proof (induction highlightChild cs st rule: forEachChild.induct)
  case (1 st)
  then show ?case by (simp add: childMaterials_def)
next
  case (2 logo v marker cs rest st)
  note IH = "2" (1) and prems = "2" (2,3)
  let ?r = "highlightChild logo v marker st"
  show ?case
  proof (cases "\<not> logo \<and> materialOf v = Some m")
    case True
    with prems(2) have "truthy (fst ?r)"
      by (auto simp: highlightChild_def truthy_def split: option.splits)
    with True show ?thesis by (simp add: Let_def markedMaterials_Cons)
  next
    case False
    with prems(1) have "m \<in> childMaterials rest"
      by (auto simp: childMaterials_Cons split: option.splits if_splits)
    moreover have "color (snd ?r m) \<noteq> 0" using prems(2) by (simp add: highlightChild_color)
    ultimately have "m \<in> markedMaterials (fst (forEachChild highlightChild rest (snd ?r)))"
      by (rule IH [OF refl])
    then show ?thesis by (simp add: Let_def markedMaterials_Cons)
  qed
qed

lemma children_dark:
  "m \<in> childMaterials (children p) \<Longrightarrow> color (st m) \<noteq> 0 \<Longrightarrow>
   dark (snd (highlightThenUnhighlightChildren p st)) m"
  unfolding highlightThenUnhighlightChildren_def Let_def
  by (rule unhighlightChildren_reset) (rule highlightChildren_mark)

lemma children_color:
  "color (snd (highlightThenUnhighlightChildren p st) m) = color (st m)"
  unfolding highlightThenUnhighlightChildren_def Let_def
  by (simp add: forEachChild_color highlightChild_color unhighlightChild_color)

text \<open>
  What the two methods do together. No material changes its base colour. In the later
  \<open>Building.js\<close>, which descends the whole subtree, the material of every instanced
  mesh and of every ordinary mesh with a non-zero colour, logos apart, ends with the
  emissive colour \<open>0x000000\<close> and the emissive intensity 0. In the earlier
  \<open>Building.js\<close> that holds for the direct children of the root group only; parts
  further down, such as its window meshes under the body, are not visited.
\<close>

lemma highlight_unhighlight_effect:
  "(\<forall>m. color (snd (highlightThenUnhighlight p st) m) = color (st m))
   \<and> (\<forall>m \<in> instancedMaterials p. dark (snd (highlightThenUnhighlight p st)) m)
   \<and> (\<forall>m \<in> meshMaterials p. color (st m) \<noteq> 0 \<longrightarrow>
        dark (snd (highlightThenUnhighlight p st)) m)
   \<and> (\<forall>m. color (snd (highlightThenUnhighlightChildren p st) m) = color (st m))
   \<and> (\<forall>m \<in> childMaterials (children p). color (st m) \<noteq> 0 \<longrightarrow>
        dark (snd (highlightThenUnhighlightChildren p st)) m)"
  using highlightThenUnhighlight_dark [of _ p st] highlightThenUnhighlight_color [of p st]
    children_dark [of _ p st] children_color [of p st]
  by blast

text \<open>
  Claim C3 says that \<open>highlight()\<close> followed by \<open>unhighlight()\<close> brings every part
  back to its state before, each material property that \<open>highlight\<close> changed being
  restored from a stored value. The methods store the colour, which they never change,
  in \<open>userData.originalColor\<close> and never read it back; \<open>unhighlight\<close> writes the
  fixed values \<open>0x000000\<close> and 0. On the standard building of the later
  \<open>Building.js\<close> the window material has emissive colour \<open>0xc8e6f5\<close> and intensity
  0.2 before and \<open>0x000000\<close> and 0 after, and the body material has intensity 1 before
  and 0 after. On the main building the ring has emissive colour \<open>0x7ea8c4\<close> and
  intensity 0.5 before and \<open>0x000000\<close> and 0 after, in the later and in the earlier
  \<open>Building.js\<close>.
\<close>

theorem unhighlight_not_restoring:
  "emissive (standardMaterials 1) = 0xc8e6f5
   \<and> emissiveIntensity (standardMaterials 1) = 2 / 10
   \<and> emissive (snd (highlightThenUnhighlight standardBuilding standardMaterials) 1) = 0
   \<and> emissiveIntensity (snd (highlightThenUnhighlight standardBuilding standardMaterials) 1) = 0
   \<and> emissiveIntensity (standardMaterials 0) = 1
   \<and> emissiveIntensity (snd (highlightThenUnhighlight standardBuilding standardMaterials) 0) = 0
   \<and> emissive (standardMaterials 2) = 0x7ea8c4
   \<and> emissiveIntensity (standardMaterials 2) = 1 / 2
   \<and> emissive (snd (highlightThenUnhighlight mainBuilding standardMaterials) 2) = 0
   \<and> emissiveIntensity (snd (highlightThenUnhighlight mainBuilding standardMaterials) 2) = 0
   \<and> emissive (snd (highlightThenUnhighlightChildren mainBuilding standardMaterials) 2) = 0
   \<and> emissiveIntensity (snd (highlightThenUnhighlightChildren mainBuilding standardMaterials) 2)
       = 0"
  by (simp add: highlightThenUnhighlight_def highlight_def unhighlight_def
      highlightThenUnhighlightChildren_def standardBuilding_def mainBuilding_def
      standardMaterials_def highlightPart_def unhighlightPart_def highlightChild_def
      unhighlightChild_def glow_def truthy_def Let_def)

section \<open>Properties of disposal\<close>

lemma dispose_clears_buildings:
  "fst (dispose p) = None \<Longrightarrow> buildings (snd (dispose p)) = None"
  by (auto simp: dispose_def Let_def split: option.splits)

lemma dispose_without_buildings:
  "buildings p = None \<Longrightarrow> dispose p = (Some TypeError, p\<lparr>clickListener := False\<rparr>)"
  by (simp add: dispose_def Let_def)

text \<open>
  Claim C2, as the code has it. \<open>dispose\<close> ends by setting \<open>this.buildings\<close> to
  \<open>null\<close>, and begins by iterating over it. So after a call that completed, a second
  call throws a TypeError at its first loop; it has released nothing by then, so the log
  of releases is the one the first call left.
\<close>

theorem second_dispose_fails:
  "fst (dispose p) = None \<Longrightarrow>
   fst (dispose (snd (dispose p))) = Some TypeError
   \<and> released (snd (dispose (snd (dispose p)))) = released (snd (dispose p))"
  by (simp add: dispose_without_buildings dispose_clears_buildings)

theorem second_dispose_fails_witness:
  "fst (dispose (snd (dispose smallCity))) = Some TypeError
   \<and> released (snd (dispose (snd (dispose smallCity))))
       = [20, 30, 31, 32, 33, 1, 2, 10, 20, 11, 40]"
proof -
  have ok: "fst (dispose smallCity) = None"
    by (simp add: dispose_def smallCity_def Let_def)
  have log: "released (snd (dispose smallCity)) = [20, 30, 31, 32, 33, 1, 2, 10, 20, 11, 40]"
    by (simp add: dispose_def smallCity_def Let_def Building_dispose_def Character_dispose_def
        Material_dispose_def textureOf_def logoParams_def)
  from second_dispose_fails [OF ok] log show ?thesis by simp
qed

text \<open>
  Claim C2 as stated fails: on the small city the first call completes and the second
  raises an error. (The log of the first call shows the logo texture 20 released by the
  building and again by the walk over the material cache.)
\<close>

theorem dispose_twice_raises:
  "fst (dispose smallCity) = None
   \<and> released (snd (dispose smallCity)) = [20, 30, 31, 32, 33, 1, 2, 10, 20, 11, 40]
   \<and> fst (dispose (snd (dispose smallCity))) = Some TypeError"
  by (simp add: dispose_def smallCity_def Let_def Building_dispose_def Character_dispose_def
      Material_dispose_def textureOf_def logoParams_def)

section \<open>Properties of the caches\<close>

text \<open>The number 1e21 is beyond \<open>JNum\<close>: a \<open>JNum\<close> is an integer from \<open>-2^53\<close> to
  \<open>2^53 - 1\<close>, where the decimal digits are what JavaScript prints.\<close>

lemma JNum_range: "- (2 ^ 53) \<le> sint w \<and> sint w < 2 ^ 53" for w :: "54 word"
  using sint_ge [of w] sint_lt [of w] by simp

text \<open>The caches that the constructor creates are well formed, and every method that
  writes to them keeps them so, as does the creation of any other object.\<close>

lemma wellFormed_constructed:
  "geometryCache p = Some [] \<Longrightarrow> materialCache p = Some [] \<Longrightarrow> wellFormed p"
  by (simp add: wellFormed_def cachedKeys_def cachedResources_def)

lemma wellFormed_created:
  assumes wf: "wellFormed p" and le: "objectsCreated p \<le> n"
  shows "wellFormed (p\<lparr>objectsCreated := n\<rparr>)"
proof -
  have same: "cachedResources (p\<lparr>objectsCreated := n\<rparr>) = cachedResources p"
    "cachedKeys (p\<lparr>objectsCreated := n\<rparr>) = cachedKeys p"
    by (simp_all add: cachedResources_def cachedKeys_def)
  from wf le have "\<forall>r \<in> set (cachedResources p). r < n"
    by (force simp: wellFormed_def list_all_iff)
  with wf same show ?thesis by (simp add: wellFormed_def list_all_iff)
qed

lemma wellFormed_geometry_added:
  assumes wf: "wellFormed p" and gc: "geometryCache p = Some gc"
    and fresh: "map_of gc k = None" and g: "geometryResource g = objectsCreated p"
  shows "wellFormed (p\<lparr>geometryCache := Some (gc @ [(k, g)]),
                        objectsCreated := objectsCreated p + 1\<rparr>)"
proof -
  let ?p = "p\<lparr>geometryCache := Some (gc @ [(k, g)]), objectsCreated := objectsCreated p + 1\<rparr>"
  let ?M = "case materialCache p of None \<Rightarrow> [] | Some mc \<Rightarrow> map (materialResource \<circ> snd) mc"
  let ?G = "map (geometryResource \<circ> snd) gc"
  from fresh have k: "k \<notin> fst ` set gc" by (simp add: map_of_eq_None_iff)
  have old: "cachedResources p = ?G @ ?M" using gc by (simp add: cachedResources_def)
  have new: "cachedResources ?p = ?G @ [objectsCreated p] @ ?M"
    using g by (simp add: cachedResources_def)
  have keys: "fst (cachedKeys ?p) = map fst gc @ [k]" "snd (cachedKeys ?p) = snd (cachedKeys p)"
    "fst (cachedKeys p) = map fst gc"
    using gc by (simp_all add: cachedKeys_def)
  from wf have below: "\<forall>r \<in> set (cachedResources p). r < objectsCreated p"
    and dist: "distinct (cachedResources p)"
    and dk: "distinct (fst (cachedKeys p))" "distinct (snd (cachedKeys p))"
    by (simp_all add: wellFormed_def list_all_iff)
  from below have fresh_id: "objectsCreated p \<notin> set (cachedResources p)" by auto
  from dist fresh_id have "distinct (cachedResources ?p)" unfolding old new by auto
  moreover have "set (cachedResources ?p) = insert (objectsCreated p) (set (cachedResources p))"
    unfolding old new by simp
  with below have "\<forall>r \<in> set (cachedResources ?p). r < objectsCreated ?p"
    by (simp add: less_Suc_eq)
  moreover from dk k have "distinct (fst (cachedKeys ?p))" "distinct (snd (cachedKeys ?p))"
    unfolding keys by auto
  ultimately show ?thesis by (simp add: wellFormed_def list_all_iff)
qed

lemma wellFormed_material_added:
  assumes wf: "wellFormed p" and mc: "materialCache p = Some mc"
    and fresh: "map_of mc k = None" and m: "materialResource m = objectsCreated p"
  shows "wellFormed (p\<lparr>materialCache := Some (mc @ [(k, m)]),
                        objectsCreated := objectsCreated p + 1\<rparr>)"
proof -
  let ?p = "p\<lparr>materialCache := Some (mc @ [(k, m)]), objectsCreated := objectsCreated p + 1\<rparr>"
  let ?G = "case geometryCache p of None \<Rightarrow> [] | Some gc \<Rightarrow> map (geometryResource \<circ> snd) gc"
  let ?M = "map (materialResource \<circ> snd) mc"
  from fresh have k: "k \<notin> fst ` set mc" by (simp add: map_of_eq_None_iff)
  have old: "cachedResources p = ?G @ ?M" using mc by (simp add: cachedResources_def)
  have new: "cachedResources ?p = ?G @ ?M @ [objectsCreated p]"
    using m by (simp add: cachedResources_def)
  have keys: "snd (cachedKeys ?p) = map fst mc @ [k]" "fst (cachedKeys ?p) = fst (cachedKeys p)"
    "snd (cachedKeys p) = map fst mc"
    using mc by (simp_all add: cachedKeys_def)
  from wf have below: "\<forall>r \<in> set (cachedResources p). r < objectsCreated p"
    and dist: "distinct (cachedResources p)"
    and dk: "distinct (fst (cachedKeys p))" "distinct (snd (cachedKeys p))"
    by (simp_all add: wellFormed_def list_all_iff)
  from below have fresh_id: "objectsCreated p \<notin> set (cachedResources p)" by auto
  from dist fresh_id have "distinct (cachedResources ?p)" unfolding old new by auto
  moreover have "set (cachedResources ?p) = insert (objectsCreated p) (set (cachedResources p))"
    unfolding old new by simp
  with below have "\<forall>r \<in> set (cachedResources ?p). r < objectsCreated ?p"
    by (simp add: less_Suc_eq)
  moreover from dk k have "distinct (fst (cachedKeys ?p))" "distinct (snd (cachedKeys ?p))"
    unfolding keys by auto
  ultimately show ?thesis by (simp add: wellFormed_def list_all_iff)
qed

lemma getGeometry_wellFormed:
  assumes wf: "wellFormed p" and c: "getGeometry p t a = Inr (g, p')"
  shows "wellFormed p'"
proof -
  from c obtain gc where gc: "geometryCache p = Some gc"
    by (auto simp: getGeometry_def Let_def split: option.splits)
  show ?thesis
  proof (cases "map_of gc (geometryKey t a)")
    case (Some h)
    with c gc have "p' = p" by (auto simp: getGeometry_def Let_def)
    with wf show ?thesis by simp
  next
    case None
    with c gc have "p' = p\<lparr>geometryCache := Some (gc @ [(geometryKey t a, g)]),
                             objectsCreated := objectsCreated p + 1\<rparr>"
      and "geometryResource g = objectsCreated p"
      by (auto simp: getGeometry_def Let_def split: if_splits)
    with wellFormed_geometry_added [OF wf gc None] show ?thesis by simp
  qed
qed

lemma getMaterial_wellFormed:
  assumes wf: "wellFormed p" and c: "getMaterial p t a = Inr (m, p')"
  shows "wellFormed p'"
proof -
  from c obtain mc where mc: "materialCache p = Some mc"
    by (auto simp: getMaterial_def Let_def split: option.splits)
  show ?thesis
  proof (cases "map_of mc (materialKey t a)")
    case (Some h)
    with c mc have "p' = p" by (auto simp: getMaterial_def Let_def)
    with wf show ?thesis by simp
  next
    case None
    with c mc have "p' = p\<lparr>materialCache := Some (mc @ [(materialKey t a, m)]),
                             objectsCreated := objectsCreated p + 1\<rparr>"
      and "materialResource m = objectsCreated p"
      by (auto simp: getMaterial_def Let_def split: if_splits)
    with wellFormed_material_added [OF wf mc None] show ?thesis by simp
  qed
qed

text \<open>A building works on the cache objects of the city (\<open>addBuilding\<close> passes them
  on), so its methods write to the same state.\<close>

lemma Building_getGeometry_wellFormed:
  assumes wf: "wellFormed p"
    and c: "Building_getGeometry (geometryCache p) (objectsCreated p) t a = (r, cache, n)"
  shows "wellFormed (p\<lparr>geometryCache := cache, objectsCreated := n\<rparr>)"
proof (cases "geometryCache p")
  case None
  with c have "cache = geometryCache p" and "objectsCreated p \<le> n"
    by (auto simp: Building_getGeometry_def Let_def split: if_splits)
  with wellFormed_created [OF wf, of n] show ?thesis by simp
next
  case (Some gc)
  show ?thesis
  proof (cases "map_of gc (geometryKey t a)")
    case h: (Some h)
    with c Some have "cache = geometryCache p" and "n = objectsCreated p"
      by (auto simp: Building_getGeometry_def Let_def)
    with wf show ?thesis by simp
  next
    case None
    show ?thesis
    proof (cases "t \<in> set buildingGeometryTypes")
      case True
      with c Some None have "cache = Some (gc @ [(geometryKey t a,
          \<lparr>geometryResource = objectsCreated p, geometryKind = t, geometryParams = a\<rparr>)])"
        and "n = objectsCreated p + 1"
        by (auto simp: Building_getGeometry_def Let_def)
      with wellFormed_geometry_added [OF wf Some None, of
          "\<lparr>geometryResource = objectsCreated p, geometryKind = t, geometryParams = a\<rparr>"]
      show ?thesis by simp
    next
      case False
      with c Some None have "cache = geometryCache p" and "n = objectsCreated p"
        by (auto simp: Building_getGeometry_def Let_def)
      with wf show ?thesis by simp
    qed
  qed
qed

lemma Building_getMaterial_wellFormed:
  assumes wf: "wellFormed p"
    and c: "Building_getMaterial (materialCache p) (objectsCreated p) t a = (r, cache, n)"
  shows "wellFormed (p\<lparr>materialCache := cache, objectsCreated := n\<rparr>)"
proof (cases "materialCache p")
  case None
  with c have "cache = materialCache p" and "objectsCreated p \<le> n"
    by (auto simp: Building_getMaterial_def Let_def split: if_splits)
  with wellFormed_created [OF wf, of n] show ?thesis by simp
next
  case (Some mc)
  show ?thesis
  proof (cases "map_of mc (materialKey t a)")
    case h: (Some h)
    with c Some have "cache = materialCache p" and "n = objectsCreated p"
      by (auto simp: Building_getMaterial_def Let_def)
    with wf show ?thesis by simp
  next
    case None
    show ?thesis
    proof (cases "t \<in> set materialTypes")
      case True
      with c Some None have "cache = Some (mc @ [(materialKey t a,
          \<lparr>materialResource = objectsCreated p, materialKind = t, materialParams = a,
            mapResource = textureOf a\<rparr>)])"
        and "n = objectsCreated p + 1"
        by (auto simp: Building_getMaterial_def Let_def)
      with wellFormed_material_added [OF wf Some None, of
          "\<lparr>materialResource = objectsCreated p, materialKind = t, materialParams = a,
            mapResource = textureOf a\<rparr>"]
      show ?thesis by simp
    next
      case False
      with c Some None have "cache = materialCache p" and "n = objectsCreated p"
        by (auto simp: Building_getMaterial_def Let_def)
      with wf show ?thesis by simp
    qed
  qed
qed

lemma geometry_cached_below:
  assumes "wellFormed p" and "geometryCache p = Some gc" and "map_of gc k = Some g"
  shows "geometryResource g < objectsCreated p"
proof -
  from assms(3) have "(k, g) \<in> set gc" by (rule map_of_SomeD)
  then have "geometryResource g \<in> set (cachedResources p)"
    using assms(2) by (force simp: cachedResources_def)
  with assms(1) show ?thesis by (auto simp: wellFormed_def list_all_iff)
qed

lemma geometry_cached_inj:
  assumes "wellFormed p" and "geometryCache p = Some gc"
    and "map_of gc k = Some g" and "map_of gc k' = Some g'"
    and "geometryResource g = geometryResource g'"
  shows "k = k'"
proof -
  from assms(1,2) have "distinct (map (geometryResource \<circ> snd) gc)"
    by (simp add: wellFormed_def cachedResources_def)
  then have inj: "inj_on (geometryResource \<circ> snd) (set gc)" by (simp add: distinct_map)
  from assms(3,4) have "(k, g) \<in> set gc" "(k', g') \<in> set gc" by (auto dest: map_of_SomeD)
  moreover have "(geometryResource \<circ> snd) (k, g) = (geometryResource \<circ> snd) (k', g')"
    using assms(5) by simp
  ultimately have "(k, g) = (k', g')" using inj by (meson inj_onD)
  then show ?thesis by simp
qed

lemma material_cached_below:
  assumes "wellFormed p" and "materialCache p = Some mc" and "map_of mc k = Some m"
  shows "materialResource m < objectsCreated p"
proof -
  from assms(3) have "(k, m) \<in> set mc" by (rule map_of_SomeD)
  then have "materialResource m \<in> set (cachedResources p)"
    using assms(2) by (force simp: cachedResources_def)
  with assms(1) show ?thesis by (auto simp: wellFormed_def list_all_iff)
qed

lemma material_cached_inj:
  assumes "wellFormed p" and "materialCache p = Some mc"
    and "map_of mc k = Some m" and "map_of mc k' = Some m'"
    and "materialResource m = materialResource m'"
  shows "k = k'"
proof -
  from assms(1,2) have "distinct (map (materialResource \<circ> snd) mc)"
    by (simp add: wellFormed_def cachedResources_def)
  then have inj: "inj_on (materialResource \<circ> snd) (set mc)" by (simp add: distinct_map)
  from assms(3,4) have "(k, m) \<in> set mc" "(k', m') \<in> set mc" by (auto dest: map_of_SomeD)
  moreover have "(materialResource \<circ> snd) (k, m) = (materialResource \<circ> snd) (k', m')"
    using assms(5) by simp
  ultimately have "(k, m) = (k', m')" using inj by (meson inj_onD)
  then show ?thesis by simp
qed

lemma map_of_snoc:
  "([k \<mapsto> v] ++ m) k' =
     (case m k' of Some w \<Rightarrow> Some w | None \<Rightarrow> if k' = k then Some v else None)"
  by (simp add: map_add_def split: option.splits)

lemma getGeometry_same_handle_iff:
  assumes wf: "wellFormed p"
    and c1: "getGeometry p t1 a1 = Inr (g1, p1)"
    and c2: "getGeometry p1 t2 a2 = Inr (g2, p2)"
  shows "geometryResource g1 = geometryResource g2 \<longleftrightarrow> geometryKey t1 a1 = geometryKey t2 a2"
proof -
  from c1 obtain gc where gc: "geometryCache p = Some gc"
    by (auto simp: getGeometry_def Let_def split: option.splits)
  show ?thesis
  proof (cases "map_of gc (geometryKey t1 a1)")
    case (Some g)
    with c1 gc have eq: "g1 = g" "p1 = p" by (auto simp: getGeometry_def Let_def)
    show ?thesis
    proof (cases "map_of gc (geometryKey t2 a2)")
      case None
      with c2 gc eq have "geometryResource g2 = objectsCreated p"
        by (auto simp: getGeometry_def Let_def split: if_splits)
      moreover have "geometryResource g1 < objectsCreated p"
        using geometry_cached_below [OF wf gc Some] eq by simp
      moreover have "geometryKey t1 a1 \<noteq> geometryKey t2 a2" using Some None by auto
      ultimately show ?thesis by simp
    next
      case (Some g')
      with c2 gc eq have "g2 = g'" by (auto simp: getGeometry_def Let_def)
      with eq Some \<open>map_of gc (geometryKey t1 a1) = Some g\<close>
        geometry_cached_inj [OF wf gc \<open>map_of gc (geometryKey t1 a1) = Some g\<close> Some]
      show ?thesis by auto
    qed
  next
    case None
    with c1 gc have g1: "geometryResource g1 = objectsCreated p"
      and p1: "geometryCache p1 = Some (gc @ [(geometryKey t1 a1, g1)])"
        "objectsCreated p1 = objectsCreated p + 1"
      by (auto simp: getGeometry_def Let_def split: if_splits)
    show ?thesis
    proof (cases "map_of gc (geometryKey t2 a2)")
      case (Some g')
      with c2 p1 have "g2 = g'" by (auto simp: getGeometry_def Let_def map_of_snoc)
      moreover have "geometryResource g' < objectsCreated p"
        by (rule geometry_cached_below [OF wf gc Some])
      moreover have "geometryKey t1 a1 \<noteq> geometryKey t2 a2" using Some None by auto
      ultimately show ?thesis using g1 by simp
    next
      case n2: None
      show ?thesis
      proof (cases "geometryKey t2 a2 = geometryKey t1 a1")
        case True
        with c2 p1 n2 have "g2 = g1" by (auto simp: getGeometry_def Let_def map_of_snoc)
        with True show ?thesis by simp
      next
        case False
        with c2 p1 n2 have "geometryResource g2 = objectsCreated p + 1"
          by (auto simp: getGeometry_def Let_def map_of_snoc split: if_splits)
        with g1 False show ?thesis by auto
      qed
    qed
  qed
qed

lemma getGeometry_again:
  assumes "getGeometry p t a = Inr (g, p')"
  shows "getGeometry p' t a = Inr (g, p')"
  using assms
  by (auto simp: getGeometry_def Let_def map_of_snoc split: option.splits if_splits)

lemma getMaterial_same_handle_iff:
  assumes wf: "wellFormed p"
    and c1: "getMaterial p t1 a1 = Inr (m1, p1)"
    and c2: "getMaterial p1 t2 a2 = Inr (m2, p2)"
  shows "materialResource m1 = materialResource m2 \<longleftrightarrow> materialKey t1 a1 = materialKey t2 a2"
proof -
  from c1 obtain mc where mc: "materialCache p = Some mc"
    by (auto simp: getMaterial_def Let_def split: option.splits)
  show ?thesis
  proof (cases "map_of mc (materialKey t1 a1)")
    case (Some m)
    with c1 mc have eq: "m1 = m" "p1 = p" by (auto simp: getMaterial_def Let_def)
    show ?thesis
    proof (cases "map_of mc (materialKey t2 a2)")
      case None
      with c2 mc eq have "materialResource m2 = objectsCreated p"
        by (auto simp: getMaterial_def Let_def split: if_splits)
      moreover have "materialResource m1 < objectsCreated p"
        using material_cached_below [OF wf mc Some] eq by simp
      moreover have "materialKey t1 a1 \<noteq> materialKey t2 a2" using Some None by auto
      ultimately show ?thesis by simp
    next
      case (Some m')
      with c2 mc eq have "m2 = m'" by (auto simp: getMaterial_def Let_def)
      with eq Some \<open>map_of mc (materialKey t1 a1) = Some m\<close>
        material_cached_inj [OF wf mc \<open>map_of mc (materialKey t1 a1) = Some m\<close> Some]
      show ?thesis by auto
    qed
  next
    case None
    with c1 mc have m1: "materialResource m1 = objectsCreated p"
      and p1: "materialCache p1 = Some (mc @ [(materialKey t1 a1, m1)])"
        "objectsCreated p1 = objectsCreated p + 1"
      by (auto simp: getMaterial_def Let_def split: if_splits)
    show ?thesis
    proof (cases "map_of mc (materialKey t2 a2)")
      case (Some m')
      with c2 p1 have "m2 = m'" by (auto simp: getMaterial_def Let_def map_of_snoc)
      moreover have "materialResource m' < objectsCreated p"
        by (rule material_cached_below [OF wf mc Some])
      moreover have "materialKey t1 a1 \<noteq> materialKey t2 a2" using Some None by auto
      ultimately show ?thesis using m1 by simp
    next
      case n2: None
      show ?thesis
      proof (cases "materialKey t2 a2 = materialKey t1 a1")
        case True
        with c2 p1 n2 have "m2 = m1" by (auto simp: getMaterial_def Let_def map_of_snoc)
        with True show ?thesis by simp
      next
        case False
        with c2 p1 n2 have "materialResource m2 = objectsCreated p + 1"
          by (auto simp: getMaterial_def Let_def map_of_snoc split: if_splits)
        with m1 False show ?thesis by auto
      qed
    qed
  qed
qed

lemma getMaterial_again:
  assumes "getMaterial p t a = Inr (m, p')"
  shows "getMaterial p' t a = Inr (m, p')"
  using assms
  by (auto simp: getMaterial_def Let_def map_of_snoc split: option.splits if_splits)

lemma getGeometry_recognized:
  "geometryCache p = Some gc \<Longrightarrow> t \<in> set geometryTypes \<Longrightarrow> \<exists>r. getGeometry p t a = Inr r"
  by (simp add: getGeometry_def Let_def split: option.splits)

lemma getMaterial_recognized:
  "materialCache p = Some mc \<Longrightarrow> t \<in> set materialTypes \<Longrightarrow> \<exists>r. getMaterial p t a = Inr r"
  by (simp add: getMaterial_def Let_def split: option.splits)

text \<open>
  Claim C4, as the code has it. The caches are keyed by a string made from the arguments,
  the type and \<open>_\<close> followed by \<open>params.join('_')\<close> for a geometry and by
  \<open>JSON.stringify(params)\<close> for a material. In a well-formed state and for recognized
  types: a call returns a handle as long as the cache is there; it leaves the state well
  formed; repeated with the same arguments it returns the same handle and changes
  nothing; and two calls in a row return the same handle exactly when their keys are
  equal.
\<close>

theorem cache_same_handle_iff_same_key:
  "wellFormed p \<Longrightarrow>
   t \<in> set geometryTypes \<Longrightarrow> t' \<in> set geometryTypes \<Longrightarrow>
   u \<in> set materialTypes \<Longrightarrow> u' \<in> set materialTypes \<Longrightarrow>
   (geometryCache p \<noteq> None \<longrightarrow> (\<exists>r. getGeometry p t a = Inr r))
   \<and> (materialCache p \<noteq> None \<longrightarrow> (\<exists>r. getMaterial p u b = Inr r))
   \<and> (getGeometry p t a = Inr (g, p') \<longrightarrow>
        wellFormed p' \<and> getGeometry p' t a = Inr (g, p'))
   \<and> (getMaterial p u b = Inr (m, q') \<longrightarrow>
        wellFormed q' \<and> getMaterial q' u b = Inr (m, q'))
   \<and> (getGeometry p t a = Inr (g, p') \<and> getGeometry p' t' a' = Inr (g', p'') \<longrightarrow>
        (geometryResource g = geometryResource g' \<longleftrightarrow> geometryKey t a = geometryKey t' a'))
   \<and> (getMaterial p u b = Inr (m, q') \<and> getMaterial q' u' b' = Inr (m', q'') \<longrightarrow>
        (materialResource m = materialResource m' \<longleftrightarrow> materialKey u b = materialKey u' b'))"
  using getGeometry_same_handle_iff [of p t a g p' t' a' g' p'']
    getMaterial_same_handle_iff [of p u b m q' u' b' m' q'']
    getGeometry_again [of p t a g p'] getMaterial_again [of p u b m q']
    getGeometry_wellFormed [of p t a g p'] getMaterial_wellFormed [of p u b m q']
    getGeometry_recognized [of p _ t a] getMaterial_recognized [of p _ u b]
  by blast

lemma key_box_1_2: "geometryKey ''box'' [JNum 1, JNum 2] = ''box_1_2''"
  by (simp add: geometryKey_def numberToString_def digits.simps digit_def)

lemma key_box_2_1: "geometryKey ''box'' [JNum 2, JNum 1] = ''box_2_1''"
  by (simp add: geometryKey_def numberToString_def digits.simps digit_def)

lemma key_box_str: "geometryKey ''box'' [JStr ''1_2''] = ''box_1_2''"
  by (simp add: geometryKey_def)

lemma key_box1_2: "geometryKey ''box_1'' [JNum 2] = ''box_1_2''"
  by (simp add: geometryKey_def numberToString_def digits.simps digit_def)

lemma key_plane_marking:
  "geometryKey ''plane'' [JNum 1, JOther ''0.3'' (Some ''0.3'')] = ''plane_1_0.3''"
  by (simp add: geometryKey_def numberToString_def digits.simps digit_def)

lemma key_plane_road: "geometryKey ''plane'' [JNum 60, JNum 6] = ''plane_60_6''"
  by (simp add: geometryKey_def numberToString_def digits.simps digit_def)

lemma key_marking_material:
  "materialKey ''basic'' [(''color'', JNum 0xffffff), (''side'', JNum 2)]
     = ''basic_{'' @ quote ''color'' @ '':16777215,'' @ quote ''side'' @ '':2}''"
  by (simp add: materialKey_def stringify_def stringifyProperty_def numberToString_def
      digits.simps digit_def)

lemma key_road_material:
  "materialKey ''standard'' [(''color'', JNum 0x333333),
       (''roughness'', JOther ''0.9'' (Some ''0.9'')), (''metalness'', JNum 0)]
     = ''standard_{'' @ quote ''color'' @ '':3355443,'' @ quote ''roughness'' @ '':0.9,''
         @ quote ''metalness'' @ '':0}''"
  by (simp add: materialKey_def stringify_def stringifyProperty_def numberToString_def
      digits.simps digit_def)

lemma wf_empty: "wellFormed emptyCity"
  by (simp add: wellFormed_constructed emptyCity_def)

text \<open>The theorem on calls of \<open>addRoads\<close>, in a city whose caches are still empty:
  the geometry of a road marking, \<open>getGeometry('plane', 1, 0.3)\<close>, asked for twice
  and followed by the geometry of a road, \<open>getGeometry('plane', 60, 6)\<close>, and the
  material of the markings asked for twice and followed by the material of the roads.\<close>

theorem cache_same_handle_iff_same_key_witness:
  "wellFormed emptyCity
   \<and> twoGeometries emptyCity ''plane'' [JNum 1, JOther ''0.3'' (Some ''0.3'')]
        ''plane'' [JNum 1, JOther ''0.3'' (Some ''0.3'')] = Inr (1, 1)
   \<and> twoGeometries emptyCity ''plane'' [JNum 1, JOther ''0.3'' (Some ''0.3'')]
        ''plane'' [JNum 60, JNum 6] = Inr (1, 2)
   \<and> twoMaterials emptyCity ''basic'' [(''color'', JNum 0xffffff), (''side'', JNum 2)]
        ''basic'' [(''color'', JNum 0xffffff), (''side'', JNum 2)] = Inr (1, 1)
   \<and> twoMaterials emptyCity ''basic'' [(''color'', JNum 0xffffff), (''side'', JNum 2)]
        ''standard'' [(''color'', JNum 0x333333),
          (''roughness'', JOther ''0.9'' (Some ''0.9'')), (''metalness'', JNum 0)] = Inr (1, 2)"
proof -
  let ?a = "[JNum 1, JOther ''0.3'' (Some ''0.3'')]"
  let ?a' = "[JNum 60, JNum 6]"
  let ?b = "[(''color'', JNum 0xffffff), (''side'', JNum 2)]"
  let ?b' = "[(''color'', JNum 0x333333), (''roughness'', JOther ''0.9'' (Some ''0.9'')),
      (''metalness'', JNum 0)]"
  let ?G = "\<lparr>geometryResource = 1, geometryKind = ''plane'', geometryParams = ?a\<rparr>"
  let ?G' = "\<lparr>geometryResource = 2, geometryKind = ''plane'', geometryParams = ?a'\<rparr>"
  let ?M = "\<lparr>materialResource = 1, materialKind = ''basic'', materialParams = ?b,
      mapResource = None\<rparr>"
  let ?M' = "\<lparr>materialResource = 2, materialKind = ''standard'', materialParams = ?b',
      mapResource = None\<rparr>"
  let ?P = "emptyCity\<lparr>geometryCache := Some [(geometryKey ''plane'' ?a, ?G)],
      objectsCreated := 2\<rparr>"
  let ?P' = "?P\<lparr>geometryCache := Some [(geometryKey ''plane'' ?a, ?G),
      (geometryKey ''plane'' ?a', ?G')], objectsCreated := 3\<rparr>"
  let ?Q = "emptyCity\<lparr>materialCache := Some [(materialKey ''basic'' ?b, ?M)],
      objectsCreated := 2\<rparr>"
  let ?Q' = "?Q\<lparr>materialCache := Some [(materialKey ''basic'' ?b, ?M),
      (materialKey ''standard'' ?b', ?M')], objectsCreated := 3\<rparr>"
  have types: "''plane'' \<in> set geometryTypes" "''basic'' \<in> set materialTypes"
    "''standard'' \<in> set materialTypes"
    by (simp_all add: geometryTypes_def materialTypes_def)
  have gkeys: "geometryKey ''plane'' ?a \<noteq> geometryKey ''plane'' ?a'"
    by (simp add: key_plane_marking key_plane_road)
  have mkeys: "materialKey ''basic'' ?b \<noteq> materialKey ''standard'' ?b'"
    by (simp add: key_marking_material key_road_material)
  have g1: "getGeometry emptyCity ''plane'' ?a = Inr (?G, ?P)"
    by (simp add: getGeometry_def Let_def emptyCity_def geometryTypes_def)
  have g2: "getGeometry ?P ''plane'' ?a' = Inr (?G', ?P')"
    using gkeys by (simp add: getGeometry_def Let_def emptyCity_def geometryTypes_def)
  have m1: "getMaterial emptyCity ''basic'' ?b = Inr (?M, ?Q)"
    by (simp add: getMaterial_def Let_def emptyCity_def materialTypes_def textureOf_def)
  have m2: "getMaterial ?Q ''standard'' ?b' = Inr (?M', ?Q')"
    using mkeys by (simp add: getMaterial_def Let_def emptyCity_def materialTypes_def textureOf_def)
  note inst = cache_same_handle_iff_same_key [OF wf_empty types(1) types(1) types(2) types(3),
      where a = "?a" and a' = "?a'" and b = "?b" and b' = "?b'" and g = "?G" and g' = "?G'"
        and m = "?M" and m' = "?M'" and p' = "?P" and p'' = "?P'" and q' = "?Q" and q'' = "?Q'"]
  from inst g1 have g_again: "getGeometry ?P ''plane'' ?a = Inr (?G, ?P)" by blast
  from inst m1 have m_again: "getMaterial ?Q ''basic'' ?b = Inr (?M, ?Q)" by blast
  from inst g1 g2 gkeys have g_diff: "geometryResource ?G \<noteq> geometryResource ?G'" by blast
  from inst m1 m2 mkeys have m_diff: "materialResource ?M \<noteq> materialResource ?M'" by blast
  have "twoGeometries emptyCity ''plane'' ?a ''plane'' ?a = Inr (1, 1)"
    unfolding twoGeometries_def g1 using g_again by simp
  moreover have "twoGeometries emptyCity ''plane'' ?a ''plane'' ?a' = Inr (1, 2)"
    unfolding twoGeometries_def g1 using g2 by simp
  moreover have "twoMaterials emptyCity ''basic'' ?b ''basic'' ?b = Inr (1, 1)"
    unfolding twoMaterials_def m1 using m_again by simp
  moreover have "twoMaterials emptyCity ''basic'' ?b ''standard'' ?b' = Inr (1, 2)"
    unfolding twoMaterials_def m1 using m2 by simp
  ultimately show ?thesis using wf_empty by simp
qed

text \<open>
  Claim C4 as stated fails, because equal keys and structurally equal arguments are not
  the same. Two parameter objects with the same properties written in a different order
  are structurally equal and get different material handles; a parameter object with a
  property set to \<open>undefined\<close> and one without it are different and share a handle; so
  do the geometry parameters \<open>(1, 2)\<close> and \<open>('1_2')\<close>.
\<close>

theorem cache_keys_not_structural:
  "map_of [(''color'', JNum 1), (''roughness'', JNum 2)]
     = map_of [(''roughness'', JNum 2), (''color'', JNum 1)]
   \<and> twoMaterials emptyCity ''standard'' [(''color'', JNum 1), (''roughness'', JNum 2)]
        ''standard'' [(''roughness'', JNum 2), (''color'', JNum 1)] = Inr (1, 2)
   \<and> [(''color'', JNum 1), (''map'', JUndefined)] \<noteq> [(''color'', JNum 1)]
   \<and> twoMaterials emptyCity ''standard'' [(''color'', JNum 1), (''map'', JUndefined)]
        ''standard'' [(''color'', JNum 1)] = Inr (1, 1)
   \<and> [JNum 1, JNum 2] \<noteq> [JStr ''1_2'']
   \<and> twoGeometries emptyCity ''box'' [JNum 1, JNum 2] ''box'' [JStr ''1_2''] = Inr (1, 1)"
proof -
  have "map_of [(''color'', JNum 1), (''roughness'', JNum 2)]
     = map_of [(''roughness'', JNum 2), (''color'', JNum 1)]"
    by (rule ext) simp
  moreover have "twoMaterials emptyCity ''standard'' [(''color'', JNum 1), (''roughness'', JNum 2)]
        ''standard'' [(''roughness'', JNum 2), (''color'', JNum 1)] = Inr (1, 2)"
    by (simp add: twoMaterials_def getMaterial_def Let_def materialKey_def stringify_def
        stringifyProperty_def quote_def escapeChar_def numberToString_def digits.simps digit_def
        emptyCity_def materialTypes_def)
  moreover have "twoMaterials emptyCity ''standard'' [(''color'', JNum 1), (''map'', JUndefined)]
        ''standard'' [(''color'', JNum 1)] = Inr (1, 1)"
    by (simp add: twoMaterials_def getMaterial_def Let_def materialKey_def stringify_def
        stringifyProperty_def quote_def escapeChar_def numberToString_def digits.simps digit_def
        emptyCity_def materialTypes_def)
  moreover have "twoGeometries emptyCity ''box'' [JNum 1, JNum 2] ''box'' [JStr ''1_2''] = Inr (1, 1)"
    by (simp add: twoGeometries_def getGeometry_def Let_def key_box_1_2 key_box_str emptyCity_def
        geometryTypes_def)
  ultimately show ?thesis by simp
qed

text \<open>
  Claim C5 says that an unrecognized type makes \<open>getGeometry\<close> raise. For the type
  \<open>sphere\<close>, \<open>Portfolio.getGeometry\<close> does, but \<open>Building.getGeometry\<close> returns
  \<open>undefined\<close>, with or without a cache, and so it does for \<open>circle\<close>, which
  \<open>Portfolio.getGeometry\<close> knows; \<open>Building.getMaterial\<close> returns \<open>undefined\<close>
  for the type \<open>lambert\<close>. \<open>Portfolio.getGeometry\<close> looks the key up before it
  looks at the type: after \<open>getGeometry('box', 1, 2)\<close> the call
  \<open>getGeometry('box_1', 2)\<close> has the same key and returns the cached box.
\<close>

theorem unknown_type_returns_undefined:
  "Building_getGeometry (Some []) 0 ''sphere'' [JNum 1] = (None, Some [], 0)
   \<and> Building_getGeometry None 0 ''sphere'' [JNum 1] = (None, None, 0)
   \<and> Building_getGeometry (Some []) 0 ''circle'' [JNum 25, JNum 16] = (None, Some [], 0)
   \<and> Building_getMaterial (Some []) 0 ''lambert'' [] = (None, Some [], 0)
   \<and> getGeometry emptyCity ''sphere'' [JNum 1] = Inl (UnknownType ''sphere'')
   \<and> ''box_1'' \<notin> set geometryTypes
   \<and> twoGeometries emptyCity ''box'' [JNum 1, JNum 2] ''box_1'' [JNum 2] = Inr (1, 1)"
  by (simp add: Building_getGeometry_def buildingGeometryTypes_def Building_getMaterial_def
      materialTypes_def getGeometry_def Let_def twoGeometries_def key_box_1_2 key_box1_2 emptyCity_def geometryTypes_def)

end
